theory Spec2Isabelle
  imports
    Main
    "HOL-Library.Multiset"
    "HOL-Library.Char_ord"
    "HOL-Library.List_Lexorder"
    "HOL-Library.AList"
begin

section \<open>Strings\<close>

text \<open>
  A Python \<open>str\<close> is modelled as a HOL \<open>string\<close>; a character is its code point, so the
  model covers exactly the strings over U+0000..U+00FF. On that range \<open>str.isalnum\<close>,
  \<open>str.lower\<close> and the regular-expression classes used by the repository are the
  following tables.
\<close>

definition cp :: "char \<Rightarrow> nat" where
  "cp c = of_char c"

definition is_digit :: "char \<Rightarrow> bool" where
  "is_digit c = (48 \<le> cp c \<and> cp c \<le> 57)"

definition is_upper_az :: "char \<Rightarrow> bool" where
  "is_upper_az c = (65 \<le> cp c \<and> cp c \<le> 90)"

definition is_lower_az :: "char \<Rightarrow> bool" where
  "is_lower_az c = (97 \<le> cp c \<and> cp c \<le> 122)"

text \<open>\<open>c.isalnum()\<close>: letters, decimal digits and the other numeric characters.\<close>

definition isalnum :: "char \<Rightarrow> bool" where
  "isalnum c = (is_digit c \<or> is_upper_az c \<or> is_lower_az c \<or>
     cp c \<in> set [170, 178, 179, 181, 185, 186, 188, 189, 190] \<or>
     (192 \<le> cp c \<and> cp c \<le> 214) \<or> (216 \<le> cp c \<and> cp c \<le> 246) \<or> 248 \<le> cp c)"

text \<open>\<open>c.lower()\<close>: A..Z and the upper-case letters U+00C0..U+00DE (without U+00D7) move up by 32.\<close>

definition char_lower :: "char \<Rightarrow> char" where
  "char_lower c =
     (if is_upper_az c \<or> (192 \<le> cp c \<and> cp c \<le> 214) \<or> (216 \<le> cp c \<and> cp c \<le> 222)
      then char_of (cp c + 32) else c)"

definition lower :: "string \<Rightarrow> string" where
  "lower s = map char_lower s"

section \<open>Per-user external sessions (services/integrations/blinkit.py)\<close>

text \<open>
  A \<open>pathlib.Path\<close> is the list of its segments. \<open>p / s\<close> for a string \<open>s\<close> without a
  separator appends one segment, and nothing when \<open>s\<close> is empty. \<open>str\<close> of an absolute
  POSIX path writes a slash before every segment.
\<close>

type_synonym path = "string list"

definition path_join :: "path \<Rightarrow> string \<Rightarrow> path" where
  "path_join p s = (if s = [] then p else p @ [s])"

definition path_str :: "path \<Rightarrow> string" where
  "path_str p = concat (map (\<lambda>s. CHR ''/'' # s) p)"

text \<open>
  \<open>BlinkitSessionManager\<close>: \<open>base_cache_dir\<close> is the constructor's argument, here already
  made absolute (\<open>Path.absolute\<close> only prepends the working directory).
\<close>

definition sessions_dir :: "path \<Rightarrow> path" where
  "sessions_dir base_cache_dir = path_join base_cache_dir ''blinkit_sessions''"

definition safe_username :: "string \<Rightarrow> string" where
  "safe_username username =
     lower (filter (\<lambda>c. isalnum c \<or> c = CHR ''_'' \<or> c = CHR ''-'') username)"

definition get_user_session_dir :: "path \<Rightarrow> string \<Rightarrow> path" where
  "get_user_session_dir base_cache_dir username =
     path_join (sessions_dir base_cache_dir) (safe_username username)"

definition get_auth_state_path_p :: "path \<Rightarrow> string \<Rightarrow> path" where
  "get_auth_state_path_p base_cache_dir username =
     path_join (get_user_session_dir base_cache_dir username) ''auth_state.json''"

definition get_auth_state_path :: "path \<Rightarrow> string \<Rightarrow> string" where
  "get_auth_state_path base_cache_dir username =
     path_str (get_auth_state_path_p base_cache_dir username)"

section \<open>Profile-aware cache (auth/cache.py)\<close>

text \<open>
  A user profile is a dictionary. The three fields read by \<open>generate_profile_hash\<close> are
  lists of strings when present (\<open>None\<close>: the key is absent); every other key of the
  dictionary is kept, uninterpreted, in \<open>other_fields\<close>.
\<close>

record user_profile =
  allergies :: "string list option"
  diet_types :: "string list option"
  cultural_restrictions :: "string list option"
  other_fields :: "(string \<times> string) list"

text \<open>\<open>if user_profile:\<close> holds for a dictionary with at least one key.\<close>

definition profile_truthy :: "user_profile option \<Rightarrow> bool" where
  "profile_truthy up = (case up of None \<Rightarrow> False
     | Some p \<Rightarrow> allergies p \<noteq> None \<or> diet_types p \<noteq> None \<or>
         cultural_restrictions p \<noteq> None \<or> other_fields p \<noteq> [])"

text \<open>\<open>user_profile.get(key, [])\<close>.\<close>

definition get_list :: "string list option \<Rightarrow> string list" where
  "get_list v = (case v of None \<Rightarrow> [] | Some xs \<Rightarrow> xs)"

text \<open>
  \<open>json.dumps\<close> with the default \<open>ensure_ascii\<close>: a string is written between double
  quotes with the escapes of the standard encoder, a list with \<open>, \<close> between its items.
\<close>

definition hex_digit :: "nat \<Rightarrow> char" where
  "hex_digit n = (if n < 10 then char_of (48 + n) else char_of (87 + n))"

definition json_escape :: "char \<Rightarrow> string" where
  "json_escape c =
     (if c = CHR 0x22 then [CHR 0x5C, CHR 0x22]
      else if c = CHR 0x5C then [CHR 0x5C, CHR 0x5C]
      else if c = CHR 0x0A then [CHR 0x5C, CHR ''n'']
      else if c = CHR 0x0D then [CHR 0x5C, CHR ''r'']
      else if c = CHR 0x09 then [CHR 0x5C, CHR ''t'']
      else if c = CHR 0x08 then [CHR 0x5C, CHR ''b'']
      else if c = CHR 0x0C then [CHR 0x5C, CHR ''f'']
      else if cp c < 32 \<or> 126 < cp c
        then [CHR 0x5C, CHR ''u'', CHR ''0'', CHR ''0'', hex_digit (cp c div 16), hex_digit (cp c mod 16)]
      else [c])"

definition json_string :: "string \<Rightarrow> string" where
  "json_string s = [CHR 0x22] @ concat (map json_escape s) @ [CHR 0x22]"

fun join_comma :: "string list \<Rightarrow> string" where
  "join_comma [] = []"
| "join_comma [x] = x"
| "join_comma (x # y # ys) = x @ '', '' @ join_comma (y # ys)"

definition json_list :: "string list \<Rightarrow> string" where
  "json_list xs = ''['' @ join_comma (map json_string xs) @ '']''"

text \<open>
  The fingerprint dictionary dumped with \<open>sort_keys=True\<close>: the keys come out in the order
  allergies, cultural_restrictions, diet_types.
\<close>

definition fingerprint_str :: "string list \<Rightarrow> string list \<Rightarrow> string list \<Rightarrow> string" where
  "fingerprint_str al dt cr =
     ''{'' @ json_string ''allergies'' @ '': '' @ json_list al @ '', '' @
     json_string ''cultural_restrictions'' @ '': '' @ json_list cr @ '', '' @
     json_string ''diet_types'' @ '': '' @ json_list dt @ ''}''"

text \<open>
  \<open>sha256_hex\<close> stands for \<open>hashlib.sha256(s.encode('utf-8')).hexdigest()\<close>; the library
  function is a parameter of the model. \<open>sorted\<close> of a list of strings orders them by code
  points, which is the lexicographic order of \<open>string\<close>.
\<close>

definition generate_profile_hash :: "(string \<Rightarrow> string) \<Rightarrow> user_profile \<Rightarrow> string" where
  "generate_profile_hash sha256_hex p =
     (let al = sort (get_list (allergies p));
          dt = sort (get_list (diet_types p));
          cr = sort (get_list (cultural_restrictions p))
      in take 16 (sha256_hex (fingerprint_str al dt cr)))"

definition get_cache_key ::
  "(string \<Rightarrow> string) \<Rightarrow> string \<Rightarrow> string \<Rightarrow> user_profile option \<Rightarrow> string" where
  "get_cache_key sha256_hex image_hash cmode up =
     (if profile_truthy up
      then image_hash @ ''_'' @ cmode @ ''_'' @ generate_profile_hash sha256_hex (the up)
      else image_hash @ ''_'' @ cmode)"

text \<open>
  A point in time (a naive \<open>datetime\<close>) is a number of microseconds, a \<open>timedelta\<close> their
  difference. A file of the cache directory either does not load as a JSON object
  (\<open>Unparsable\<close>: \<open>json.load\<close> or the first subscript raises) or is an object with the
  fields below; \<open>cached_at = None\<close> stands for a missing or malformed time stamp,
  \<open>response = None\<close> and \<open>profile_version = None\<close> for missing keys.
\<close>

type_synonym time = int

record cache_data =
  cached_at :: "time option"
  response :: "string option"
  data_mode :: string
  invalidated :: bool
  profile_version :: "string option"

datatype cache_file = Unparsable | Json cache_data

text \<open>
  The manager: the listing of the cache directory (file name and content, names distinct),
  the time to live and the in-memory dictionary. A cache key is taken to contain no path
  separator, so that \<open>os.path.join(cache_dir, key + ".json")\<close> names a file of the
  directory itself. Reading, writing and removing a file are modelled as succeeding.
\<close>

record cache_manager =
  cache_files :: "(string \<times> cache_file) list"
  ttl_hours :: int
  memory_cache :: "string \<rightharpoonup> string"

definition hours :: "int \<Rightarrow> int" where
  "hours h = h * 3600 * 1000000"

definition remove_file :: "string \<Rightarrow> cache_manager \<Rightarrow> cache_manager" where
  "remove_file fname cm = cm\<lparr>cache_files := AList.delete fname (cache_files cm)\<rparr>"

definition get_cached_response ::
  "(string \<Rightarrow> string) \<Rightarrow> cache_manager \<Rightarrow> time \<Rightarrow> string \<Rightarrow> string \<Rightarrow> user_profile option
     \<Rightarrow> string option \<times> cache_manager" where
  "get_cached_response sha256_hex cm now image_hash cmode up =
     (let cache_key = get_cache_key sha256_hex image_hash cmode up in
      case memory_cache cm cache_key of
        Some r \<Rightarrow> (Some r, cm)
      | None \<Rightarrow>
        (let cache_file = cache_key @ ''.json'' in
         case map_of (cache_files cm) cache_file of
           None \<Rightarrow> (None, cm)
         | Some Unparsable \<Rightarrow> (None, cm)
         | Some (Json d) \<Rightarrow>
             if invalidated d then (None, remove_file cache_file cm)
             else (case cached_at d of
                 None \<Rightarrow> (None, cm)
               | Some t \<Rightarrow>
                   if now - t > hours (ttl_hours cm) then (None, remove_file cache_file cm)
                   else if profile_truthy up \<and>
                       generate_profile_hash sha256_hex (the up) \<noteq>
                         (case profile_version d of None \<Rightarrow> [] | Some v \<Rightarrow> v)
                     then (None, remove_file cache_file cm)
                   else (case response d of
                       None \<Rightarrow> (None, cm)
                     | Some r \<Rightarrow>
                         (Some r, cm\<lparr>memory_cache := (memory_cache cm)(cache_key \<mapsto> r)\<rparr>)))))"

definition cache_response ::
  "(string \<Rightarrow> string) \<Rightarrow> cache_manager \<Rightarrow> time \<Rightarrow> string \<Rightarrow> string \<Rightarrow> string \<Rightarrow> user_profile option
     \<Rightarrow> bool \<times> cache_manager" where
  "cache_response sha256_hex cm now image_hash cmode resp up =
     (let cache_key = get_cache_key sha256_hex image_hash cmode up;
          cache_file = cache_key @ ''.json'';
          d = \<lparr>cached_at = Some now, response = Some resp, data_mode = cmode, invalidated = False,
               profile_version =
                 (if profile_truthy up then Some (generate_profile_hash sha256_hex (the up)) else None)\<rparr>
      in (True, cm\<lparr>memory_cache := (memory_cache cm)(cache_key \<mapsto> resp),
                   cache_files := AList.update cache_file (Json d) (cache_files cm)\<rparr>))"

text \<open>
  \<open>invalidate_cache_for_user\<close>: the loop over \<open>os.listdir\<close> visits each file once and
  rewrites it in place; \<open>invalidate_loop\<close> returns the rewritten listing and the count.
\<close>

definition endswith_json :: "string \<Rightarrow> bool" where
  "endswith_json filename = (5 \<le> length filename \<and> drop (length filename - 5) filename = ''.json'')"

fun invalidate_loop :: "(string \<times> cache_file) list \<Rightarrow> int \<Rightarrow> (string \<times> cache_file) list \<times> int" where
  "invalidate_loop [] cnt = ([], cnt)"
| "invalidate_loop ((filename, f) # rest) cnt =
     (if \<not> endswith_json filename then
        (let (rest', cnt') = invalidate_loop rest cnt in ((filename, f) # rest', cnt'))
      else (case f of
          Unparsable \<Rightarrow>
            (let (rest', cnt') = invalidate_loop rest cnt in ((filename, f) # rest', cnt'))
        | Json d \<Rightarrow>
            (let (rest', cnt') = invalidate_loop rest (cnt + 1)
             in ((filename, Json (d\<lparr>invalidated := True\<rparr>)) # rest', cnt'))))"

definition invalidate_cache_for_user :: "cache_manager \<Rightarrow> string \<Rightarrow> int \<times> cache_manager" where
  "invalidate_cache_for_user cm username =
     (let (files', cnt) = invalidate_loop (cache_files cm) 0
      in (cnt, cm\<lparr>cache_files := files', memory_cache := Map.empty\<rparr>))"

text \<open>
  What the loop amounts to, stated per file: an entry that is rewritten, and whether a file
  is one that gets rewritten (a parsable file whose name ends in \<open>.json\<close>).
\<close>

definition is_rewritten :: "string \<times> cache_file \<Rightarrow> bool" where
  "is_rewritten e = (case e of (filename, f) \<Rightarrow>
     endswith_json filename \<and> (case f of Unparsable \<Rightarrow> False | Json d \<Rightarrow> True))"

definition mark_invalidated :: "string \<times> cache_file \<Rightarrow> string \<times> cache_file" where
  "mark_invalidated e = (case e of (filename, f) \<Rightarrow>
     if endswith_json filename
     then (case f of Unparsable \<Rightarrow> (filename, f) | Json d \<Rightarrow> (filename, Json (d\<lparr>invalidated := True\<rparr>)))
     else (filename, f))"

text \<open>
  Concrete inputs for the examples below: a stand-in digest of 64 hexadecimal digits (the
  model is parametric in the hash function), two profiles and a fresh manager with the
  default time to live.
\<close>

fun hex_of :: "nat \<Rightarrow> int \<Rightarrow> string" where
  "hex_of 0 n = []"
| "hex_of (Suc k) n = hex_of k (n div 16) @ [hex_digit (nat (n mod 16))]"

definition digest_stub :: "string \<Rightarrow> string" where
  "digest_stub s =
     concat (replicate 16 (hex_of 4 (foldl (\<lambda>h c. (h * 31 + int (cp c)) mod 65521) 7 s)))"

definition profile_a :: user_profile where
  "profile_a = \<lparr>allergies = Some [''nuts'', ''dairy''], diet_types = Some [''vegan''],
     cultural_restrictions = None, other_fields = [(''household_size'', ''2'')]\<rparr>"

definition profile_b :: user_profile where
  "profile_b = \<lparr>allergies = Some [''dairy'', ''nuts''], diet_types = Some [''vegan''],
     cultural_restrictions = Some [], other_fields = []\<rparr>"

definition fresh_cache :: cache_manager where
  "fresh_cache = \<lparr>cache_files = [], ttl_hours = 12, memory_cache = Map.empty\<rparr>"

definition cache_after_store :: cache_manager where
  "cache_after_store =
     snd (cache_response digest_stub fresh_cache 0 ''ab'' ''recipes'' ''R1'' (Some profile_a))"

definition other_users_cache :: cache_manager where
  "other_users_cache =
     snd (cache_response digest_stub cache_after_store 5 ''cd'' ''items'' ''I1'' None)
       \<lparr>cache_files := (''notes.txt'', Unparsable) #
          cache_files (snd (cache_response digest_stub cache_after_store 5 ''cd'' ''items'' ''I1'' None))\<rparr>"

section \<open>Circuit breaker (services/camera.py)\<close>

text \<open>
  \<open>timedelta.seconds\<close> is the seconds field of the normalized difference (days, seconds,
  microseconds with \<open>0 \<le> seconds < 86400\<close>), not its length in seconds.
\<close>

definition timedelta_seconds :: "int \<Rightarrow> int" where
  "timedelta_seconds delta = (delta div 1000000) mod 86400"

definition seconds :: "int \<Rightarrow> int" where
  "seconds n = n * 1000000"

datatype circuit_state = CLOSED | OPEN | HALF_OPEN

record circuit_breaker =
  failure_threshold :: int
  timeout :: int
  failure_count :: int
  last_failure_time :: "time option"
  state :: circuit_state

definition circuit_open_message :: string where
  "circuit_open_message = ''Circuit breaker is OPEN - service unavailable''"

text \<open>
  The wrapped function runs in a world \<open>'w\<close> that it may change; \<open>clock\<close> reads
  \<open>datetime.now()\<close> off the world. An exception is its message (\<open>Inl\<close>), as every exception
  raised here is a plain \<open>Exception\<close>.
\<close>

definition call ::
  "('w \<Rightarrow> time) \<Rightarrow> circuit_breaker \<Rightarrow> ('w \<Rightarrow> (string + 'a) \<times> 'w) \<Rightarrow> 'w
     \<Rightarrow> (string + 'a) \<times> circuit_breaker \<times> 'w" where
  "call clock cb func w =
     (if state cb = OPEN \<and>
         \<not> (case last_failure_time cb of None \<Rightarrow> False
            | Some t \<Rightarrow> timedelta_seconds (clock w - t) \<ge> timeout cb)
      then (Inl circuit_open_message, cb, w)
      else
        (let cb1 = (if state cb = OPEN then cb\<lparr>state := HALF_OPEN\<rparr> else cb) in
         case func w of
           (Inr result, w') \<Rightarrow> (Inr result, cb1\<lparr>state := CLOSED, failure_count := 0\<rparr>, w')
         | (Inl e, w') \<Rightarrow>
             (let cb2 = cb1\<lparr>failure_count := failure_count cb1 + 1,
                            last_failure_time := Some (clock w')\<rparr>;
                  cb3 = (if failure_count cb2 \<ge> failure_threshold cb2 then cb2\<lparr>state := OPEN\<rparr> else cb2)
              in (Inl e, cb3, w'))))"

definition new_circuit_breaker :: "int \<Rightarrow> int \<Rightarrow> circuit_breaker" where
  "new_circuit_breaker threshold tmo =
     \<lparr>failure_threshold = threshold, timeout = tmo, failure_count = 0,
      last_failure_time = None, state = CLOSED\<rparr>"

text \<open>
  A world for the examples: the wall clock and the number of times the dependency was
  contacted. \<open>camera_down\<close> is a dependency that fails at once, \<open>camera_up\<close> one that
  answers at once.
\<close>

record world =
  wall_clock :: time
  contacts :: nat

definition camera_down :: "world \<Rightarrow> (string + string) \<times> world" where
  "camera_down w = (Inl ''connection refused'', w\<lparr>contacts := contacts w + 1\<rparr>)"

definition camera_up :: "world \<Rightarrow> (string + string) \<times> world" where
  "camera_up w = (Inr ''image'', w\<lparr>contacts := contacts w + 1\<rparr>)"

definition breaker_after_three_failures :: circuit_breaker where
  "breaker_after_three_failures =
     (let w0 = \<lparr>wall_clock = 0, contacts = 0\<rparr>;
          (r1, cb1, w1) = call wall_clock (new_circuit_breaker 3 2) camera_down w0;
          (r2, cb2, w2) = call wall_clock cb1 camera_down w1;
          (r3, cb3, w3) = call wall_clock cb2 camera_down w2
      in cb3)"

section \<open>Database connection state machine (database/connection.py)\<close>

datatype connection_status = DISCONNECTED | CONNECTING | CONNECTED | ERROR

text \<open>
  \<open>ConnectionMetrics\<close> without its timing fields (\<open>total_connection_time\<close> and
  \<open>last_connection_time\<close>). The state machine holds the
  client, the state, the last error and the metrics; \<open>health_check_started\<close> records the call
  of \<open>_start_health_check\<close> and \<open>slept\<close> the arguments of the calls of \<open>time.sleep\<close>, in order.
\<close>

record connection_metrics =
  connection_attempts :: int
  connection_failures :: int
  last_error :: "string option"

record 'c database_state_machine =
  db_client :: "'c option"
  db_state :: connection_status
  connection_error :: "string option"
  metrics :: connection_metrics
  health_check_started :: bool
  slept :: "int list"

datatype db_exception = DatabaseConnectionError int string

text \<open>
  One attempt, \<open>self._factory()\<close> followed by \<open>server_info()\<close>, either raises (\<open>Inl\<close> of
  \<open>str(e)\<close>) or yields a client; \<open>connect k\<close> is the outcome of the attempt with index \<open>k\<close>.
  \<open>connect_loop\<close> is the \<open>for attempt in range(max_retries)\<close> loop from \<open>attempt\<close> on.
\<close>

function connect_loop ::
  "(int \<Rightarrow> string + 'c) \<Rightarrow> int \<Rightarrow> int \<Rightarrow> 'c database_state_machine
     \<Rightarrow> (db_exception + unit) \<times> 'c database_state_machine" where
  "connect_loop connect max_retries attempt s =
     (if attempt \<ge> max_retries then (Inr (), s)
      else
        (let s1 = s\<lparr>metrics := (metrics s)\<lparr>connection_attempts := connection_attempts (metrics s) + 1\<rparr>,
                     db_state := CONNECTING\<rparr>
         in case connect attempt of
              Inr c \<Rightarrow>
                (Inr (), s1\<lparr>db_client := Some c, db_state := CONNECTED, connection_error := None,
                            health_check_started := True\<rparr>)
            | Inl e \<Rightarrow>
                (let s2 = s1\<lparr>metrics := (metrics s1)\<lparr>connection_failures := connection_failures (metrics s1) + 1,
                                                        last_error := Some e\<rparr>,
                              db_state := ERROR, db_client := None, connection_error := Some e\<rparr>
                 in if attempt < max_retries - 1
                    then connect_loop connect max_retries (attempt + 1)
                           (s2\<lparr>slept := slept s2 @ [1 * (attempt + 1)]\<rparr>)
                    else (Inl (DatabaseConnectionError max_retries e), s2))))"
  by pat_completeness auto
termination
  by (relation "measure (\<lambda>(connect, max_retries, attempt, s). nat (max_retries - attempt))") auto

declare connect_loop.simps [simp del]

definition ensure_connected ::
  "(int \<Rightarrow> string + 'c) \<Rightarrow> int \<Rightarrow> 'c database_state_machine
     \<Rightarrow> (db_exception + unit) \<times> 'c database_state_machine" where
  "ensure_connected connect max_retries s =
     (if db_state s = CONNECTED then (Inr (), s) else connect_loop connect max_retries 0 s)"

definition new_database_state_machine :: "'c database_state_machine" where
  "new_database_state_machine =
     \<lparr>db_client = None, db_state = DISCONNECTED, connection_error = None,
      metrics = \<lparr>connection_attempts = 0, connection_failures = 0, last_error = None\<rparr>,
      health_check_started = False, slept = []\<rparr>"

text \<open>A store that refuses every attempt, for the examples.\<close>

definition store_down :: "int \<Rightarrow> string + unit" where
  "store_down attempt = Inl ''connection refused''"

section \<open>Document collections\<close>

text \<open>
  A collection is the list of its documents. \<open>find_one(filter)\<close> is \<open>find\<close>: the first
  document that matches. \<open>update_one(filter, {"$set": ...})\<close> changes the first document
  that matches and reports whether there was one.
\<close>

fun update_first :: "('d \<Rightarrow> bool) \<Rightarrow> ('d \<Rightarrow> 'd) \<Rightarrow> 'd list \<Rightarrow> 'd list" where
  "update_first P f [] = []"
| "update_first P f (d # ds) = (if P d then f d # ds else d # update_first P f ds)"


section \<open>Grocery lists with optimistic locking (services/grocery.py)\<close>
















section \<open>Password and e-mail validation (auth/validators.py)\<close>

text \<open>\<open>needle in haystack\<close> for strings.\<close>

fun substring_in :: "string \<Rightarrow> string \<Rightarrow> bool" where
  "substring_in needle [] = (needle = [])"
| "substring_in needle (c # cs) =
     (take (length needle) (c # cs) = needle \<or> substring_in needle cs)"

definition COMMON_PASSWORDS :: "string list" where
  "COMMON_PASSWORDS =
     [''password'', ''123456'', ''12345678'', ''qwerty'', ''abc123'', ''monkey'',
      ''1234567'', ''letmein'', ''trustno1'', ''dragon'', ''baseball'', ''111111'',
      ''iloveyou'', ''master'', ''sunshine'', ''ashley'', ''bailey'', ''passw0rd'',
      ''shadow'', ''123123'', ''654321'', ''superman'', ''qazwsx'', ''michael'',
      ''football'', ''welcome'', ''jesus'', ''ninja'', ''mustang'', ''password1'',
      ''123456789'', ''adobe123'', ''admin'', ''1234567890'', ''photoshop'',
      ''1234'', ''12345'', ''princess'', ''azerty'', ''000000'', ''access'',
      ''696969'', ''batman'', ''1qaz2wsx'', ''login'', ''qwertyuiop'', ''solo'',
      ''starwars'', ''whatever'', ''donald'', ''charlie'', ''aa123456'', ''freedom'',
      ''lovely'', ''7777777'', ''888888'', ''flower'', ''hottie'', ''loveme'',
      ''zaq1zaq1'', ''password123'', ''!@#$%^&*'', ''hello'', ''freedom'',
      ''computer'', ''121212'', ''123321'', ''1q2w3e4r'', ''secret'', ''123qwe'',
      ''test'', ''123abc'', ''password!'', ''qwerty123'', ''welcome123'', ''admin123'']"

text \<open>The character class of the special-character check.\<close>

definition special_characters :: string where
  "special_characters =
     ''!@#$%^&*()_+-=[]{};:'' @ [CHR 0x27, CHR 0x22] @ '',.<>?/'' @ [CHR 0x5C] @ ''|`~''"

definition is_special :: "char \<Rightarrow> bool" where
  "is_special c = (c \<in> set special_characters)"

datatype password_error =
  TooShort | NoUppercase | NoLowercase | NoDigit | NoSpecial | TooCommon | ContainsUsername

text \<open>
  \<open>PasswordValidationResult\<close> with the two fields that decide acceptance; the strength
  score and the suggestions are computed from the password after that and do not enter
  \<open>is_valid\<close>.
\<close>

record password_validation_result =
  is_valid :: bool
  errors :: "password_error list"

definition MIN_LENGTH :: nat where
  "MIN_LENGTH = 8"

definition validate :: "string \<Rightarrow> string option \<Rightarrow> password_validation_result" where
  "validate password username =
     (let errors =
        (if length password < MIN_LENGTH then [TooShort] else []) @
        (if \<not> list_ex is_upper_az password then [NoUppercase] else []) @
        (if \<not> list_ex is_lower_az password then [NoLowercase] else []) @
        (if \<not> list_ex is_digit password then [NoDigit] else []) @
        (if \<not> list_ex is_special password then [NoSpecial] else []) @
        (if lower password \<in> set COMMON_PASSWORDS then [TooCommon] else []) @
        (if (case username of None \<Rightarrow> False
             | Some u \<Rightarrow> u \<noteq> [] \<and> substring_in (lower u) (lower password))
         then [ContainsUsername] else [])
      in \<lparr>is_valid = (length errors = 0), errors = errors\<rparr>)"

definition validate_password_with_feedback ::
  "string \<Rightarrow> string option \<Rightarrow> bool \<times> password_error list" where
  "validate_password_with_feedback password username =
     (let result = validate password username in (is_valid result, errors result))"

text \<open>\<open>str.strip()\<close> removes the white space of both ends.\<close>

definition is_space :: "char \<Rightarrow> bool" where
  "is_space c = (cp c \<in> set [9, 10, 11, 12, 13, 28, 29, 30, 31, 32, 133, 160])"

definition strip :: "string \<Rightarrow> string" where
  "strip s = rev (dropWhile is_space (rev (dropWhile is_space s)))"

text \<open>
  \<open>EMAIL_REGEX\<close>: one or more characters of the local class, an at sign, and labels
  separated by dots; a label is 1 to 63 letters, digits or hyphens and neither starts nor
  ends with a hyphen. The final \<open>$\<close> also matches before one trailing newline.
\<close>

definition is_ascii_alnum :: "char \<Rightarrow> bool" where
  "is_ascii_alnum c = (is_lower_az c \<or> is_upper_az c \<or> is_digit c)"

definition is_local_char :: "char \<Rightarrow> bool" where
  "is_local_char c =
     (is_ascii_alnum c \<or> c \<in> set (''.!#$%&'' @ [CHR 0x27] @ ''*+/=?^_`{|}~-''))"

definition is_label :: "string \<Rightarrow> bool" where
  "is_label l = (l \<noteq> [] \<and> length l \<le> 63 \<and> is_ascii_alnum (hd l) \<and> is_ascii_alnum (last l) \<and>
     list_all (\<lambda>c. is_ascii_alnum c \<or> c = CHR ''-'') l)"

fun split_on :: "char \<Rightarrow> string \<Rightarrow> string list" where
  "split_on sep [] = [[]]"
| "split_on sep (c # cs) =
     (if c = sep then [] # split_on sep cs
      else (case split_on sep cs of [] \<Rightarrow> [[c]] | l # ls \<Rightarrow> (c # l) # ls))"

definition email_regex_core :: "string \<Rightarrow> bool" where
  "email_regex_core s =
     (let local = takeWhile (\<lambda>c. c \<noteq> CHR ''@'') s;
          rest = dropWhile (\<lambda>c. c \<noteq> CHR ''@'') s
      in local \<noteq> [] \<and> list_all is_local_char local \<and> rest \<noteq> [] \<and>
         list_all is_label (split_on (CHR ''.'') (tl rest)))"

definition EMAIL_REGEX_match :: "string \<Rightarrow> bool" where
  "EMAIL_REGEX_match s =
     (email_regex_core s \<or> (s \<noteq> [] \<and> last s = CHR 0x0A \<and> email_regex_core (butlast s)))"

text \<open>\<open>email.rsplit('@', 1)\<close>: the parts before and after the last at sign, if there is one.\<close>

definition rsplit_at :: "string \<Rightarrow> (string \<times> string) option" where
  "rsplit_at s =
     (if CHR ''@'' \<in> set s
      then Some (rev (tl (dropWhile (\<lambda>c. c \<noteq> CHR ''@'') (rev s))),
                 rev (takeWhile (\<lambda>c. c \<noteq> CHR ''@'') (rev s)))
      else None)"

datatype email_error =
  EmailRequired | EmailTooLong | InvalidEmailFormat | LocalPartTooLong | LocalPartEmpty
| DomainTooLong | DomainEmpty | ConsecutiveDots | DomainWithoutDot

definition validate_email :: "string \<Rightarrow> email_error + unit" where
  "validate_email email =
     (if email = [] then Inl EmailRequired
      else if length email > 254 then Inl EmailTooLong
      else if \<not> EMAIL_REGEX_match email then Inl InvalidEmailFormat
      else (case rsplit_at email of
          None \<Rightarrow> Inl InvalidEmailFormat
        | Some (local, domain) \<Rightarrow>
            if length local > 64 then Inl LocalPartTooLong
            else if local = [] then Inl LocalPartEmpty
            else if length domain > 253 then Inl DomainTooLong
            else if domain = [] then Inl DomainEmpty
            else if substring_in ''..'' email then Inl ConsecutiveDots
            else if CHR ''.'' \<notin> set domain then Inl DomainWithoutDot
            else Inr ()))"

definition normalize_email :: "string \<Rightarrow> string" where
  "normalize_email email = lower (strip email)"

section \<open>Authentication store and configuration (auth/config.py)\<close>

record auth_config =
  MAX_LOGIN_ATTEMPTS :: int
  LOCKOUT_DURATION :: int
  REQUIRE_EMAIL_VERIFICATION :: bool

definition default_config :: auth_config where
  "default_config =
     \<lparr>MAX_LOGIN_ATTEMPTS = 5, LOCKOUT_DURATION = 1800, REQUIRE_EMAIL_VERIFICATION = False\<rparr>"

text \<open>
  A document of \<open>users_v2\<close>: its \<open>_id\<close>, the fields the password provider reads and
  writes, and the \<open>security\<close> sub-document flattened. Object ids are numbers.
\<close>

record user =
  user_oid :: nat
  email :: string
  email_verified :: bool
  auth_provider :: string
  password_hash :: string
  profile :: user_profile
  failed_login_attempts :: int
  locked_until :: "time option"
  last_login :: "time option"
  last_password_change :: "time option"
  created_at :: time
  updated_at :: time

record audit_record =
  event_type :: string
  audit_user_id :: "nat option"
  audit_email :: string
  provider :: "string option"
  ip_address :: "string option"
  audit_success :: bool
  failure_reason :: "string option"
  timestamp :: time

record device_info =
  interface :: string
  user_agent :: string
  device_ip_address :: string

record session =
  session_user_id :: nat
  access_token_jti :: string
  refresh_token_jti :: string
  session_device_info :: device_info
  session_created_at :: time
  expires_at :: int
  last_activity :: time
  revoked :: bool

record auth_db =
  users_v2 :: "user list"
  auth_sessions :: "session list"
  auth_audit_log :: "audit_record list"

datatype auth_message =
  InvalidEmail email_error
| InvalidPassword "password_error list"
| EmailAlreadyRegistered
| InvalidEmailOrPassword
| AccountLocked int
| EmailNotVerified
| UnknownProvider string
| ServerError

record auth_result =
  success :: bool
  user_id :: "nat option"
  result_email :: "string option"
  error_message :: "auth_message option"
  requires_verification :: bool

definition failure :: "auth_message \<Rightarrow> auth_result" where
  "failure msg = \<lparr>success = False, user_id = None, result_email = None,
     error_message = Some msg, requires_verification = False\<rparr>"

section \<open>The e-mail and password provider (auth/providers.py)\<close>

text \<open>
  \<open>hashpw\<close> and \<open>checkpw\<close> are the library's functions, parameters of the model; \<open>new_oid\<close>
  is the object id the store gives the inserted document and \<open>now\<close> the reading of
  \<open>datetime.utcnow()\<close>, one instant for the whole call. Store operations are taken to
  succeed (the provider turns any exception into a server-error result).
\<close>

definition register ::
  "auth_config \<Rightarrow> (string \<Rightarrow> string) \<Rightarrow> auth_db \<Rightarrow> nat \<Rightarrow> time \<Rightarrow> string \<Rightarrow> string \<Rightarrow> user_profile
     \<Rightarrow> auth_result \<times> auth_db" where
  "register cfg hashpw db new_oid now credentials_email password prof =
     (let email0 = strip credentials_email in
      case validate_email email0 of
        Inl email_error \<Rightarrow> (failure (InvalidEmail email_error), db)
      | Inr _ \<Rightarrow>
          (let email1 = normalize_email email0;
               (password_valid, password_feedback) = validate_password_with_feedback password (Some email1)
           in if \<not> password_valid then (failure (InvalidPassword password_feedback), db)
              else (case find (\<lambda>u. email u = email1) (users_v2 db) of
                  Some existing_user \<Rightarrow> (failure EmailAlreadyRegistered, db)
                | None \<Rightarrow>
                    (let user_doc = \<lparr>user_oid = new_oid, email = email1,
                           email_verified = (\<not> REQUIRE_EMAIL_VERIFICATION cfg),
                           auth_provider = ''email'', password_hash = hashpw password,
                           profile = prof, failed_login_attempts = 0, locked_until = None,
                           last_login = None, last_password_change = Some now,
                           created_at = now, updated_at = now\<rparr>;
                         audit = \<lparr>event_type = ''user_registered'', audit_user_id = Some new_oid,
                           audit_email = email1, provider = Some ''email'', ip_address = None,
                           audit_success = True, failure_reason = None, timestamp = now\<rparr>
                     in (\<lparr>success = True, user_id = Some new_oid, result_email = Some email1,
                           error_message = None,
                           requires_verification = REQUIRE_EMAIL_VERIFICATION cfg\<rparr>,
                         db\<lparr>users_v2 := users_v2 db @ [user_doc],
                            auth_audit_log := auth_audit_log db @ [audit]\<rparr>)))))"

definition login_failed :: "nat option \<Rightarrow> string \<Rightarrow> string \<Rightarrow> string \<Rightarrow> time \<Rightarrow> audit_record" where
  "login_failed uid email1 ip reason now =
     \<lparr>event_type = ''login_failed'', audit_user_id = uid, audit_email = email1,
      provider = Some ''email'', ip_address = Some ip, audit_success = False,
      failure_reason = Some reason, timestamp = now\<rparr>"

definition authenticate ::
  "auth_config \<Rightarrow> (string \<Rightarrow> string \<Rightarrow> bool) \<Rightarrow> auth_db \<Rightarrow> time \<Rightarrow> string \<Rightarrow> string \<Rightarrow> string
     \<Rightarrow> auth_result \<times> auth_db" where
  "authenticate cfg checkpw db now credentials_email password ip =
     (let email1 = normalize_email credentials_email in
      case find (\<lambda>u. email u = email1 \<and> auth_provider u = ''email'') (users_v2 db) of
        None \<Rightarrow>
          (failure InvalidEmailOrPassword,
           db\<lparr>auth_audit_log := auth_audit_log db @ [login_failed None email1 ip ''user_not_found'' now]\<rparr>)
      | Some usr \<Rightarrow>
          if (case locked_until usr of None \<Rightarrow> False | Some lu \<Rightarrow> now < lu)
          then (failure (AccountLocked (timedelta_seconds (the (locked_until usr) - now) div 60)), db)
          else if \<not> checkpw password (password_hash usr) then
            (let failed_attempts = failed_login_attempts usr + 1;
                 upd = (\<lambda>u. if failed_attempts \<ge> MAX_LOGIN_ATTEMPTS cfg
                         then u\<lparr>failed_login_attempts := failed_attempts,
                                locked_until := Some (now + seconds (LOCKOUT_DURATION cfg))\<rparr>
                         else u\<lparr>failed_login_attempts := failed_attempts\<rparr>)
             in (failure InvalidEmailOrPassword,
                 db\<lparr>users_v2 := update_first (\<lambda>u. user_oid u = user_oid usr) upd (users_v2 db),
                    auth_audit_log := auth_audit_log db @
                      [login_failed (Some (user_oid usr)) email1 ip ''invalid_password'' now]\<rparr>))
          else if REQUIRE_EMAIL_VERIFICATION cfg \<and> \<not> email_verified usr then
            ((failure EmailNotVerified)\<lparr>requires_verification := True\<rparr>, db)
          else
            (\<lparr>success = True, user_id = Some (user_oid usr), result_email = Some email1,
               error_message = None, requires_verification = False\<rparr>,
             db\<lparr>users_v2 := update_first (\<lambda>u. user_oid u = user_oid usr)
                    (\<lambda>u. u\<lparr>failed_login_attempts := 0, locked_until := None, last_login := Some now\<rparr>)
                    (users_v2 db),
                auth_audit_log := auth_audit_log db @
                  [\<lparr>event_type = ''login_success'', audit_user_id = Some (user_oid usr),
                    audit_email = email1, provider = Some ''email'', ip_address = Some ip,
                    audit_success = True, failure_reason = None, timestamp = now\<rparr>]\<rparr>))"

text \<open>
  Inputs for the examples: a stand-in for the password hash, the account of scenario 2
  after four wrong passwords, and a configuration that requires verified e-mail addresses.
\<close>

definition hash_stub :: "string \<Rightarrow> string" where
  "hash_stub password = ''hash:'' @ password"

definition checkpw_stub :: "string \<Rightarrow> string \<Rightarrow> bool" where
  "checkpw_stub password hashed = (hashed = hash_stub password)"

definition bob :: user where
  "bob = \<lparr>user_oid = 7, email = ''bob@example.com'', email_verified = True,
     auth_provider = ''email'', password_hash = hash_stub ''Tr0ub4dor&3'',
     profile = profile_b, failed_login_attempts = 4, locked_until = None, last_login = None,
     last_password_change = Some 0, created_at = 0, updated_at = 0\<rparr>"

definition db_bob :: auth_db where
  "db_bob = \<lparr>users_v2 = [bob], auth_sessions = [], auth_audit_log = []\<rparr>"

definition empty_db :: auth_db where
  "empty_db = \<lparr>users_v2 = [], auth_sessions = [], auth_audit_log = []\<rparr>"

definition strict_config :: auth_config where
  "strict_config = default_config\<lparr>REQUIRE_EMAIL_VERIFICATION := True\<rparr>"

definition bob_locked :: user where
  "bob_locked = bob\<lparr>failed_login_attempts := 5, locked_until := Some (seconds 1900)\<rparr>"

definition bob_unverified :: user where
  "bob_unverified = bob\<lparr>email_verified := False\<rparr>"

section \<open>Profile editing (auth/profile.py)\<close>

text \<open>
  The state a profile edit runs in: the store, the artifact cache of the process, and the
  \<open>UserProfileManager\<close>'s current user and profile. \<open>_update_profile_field(field, value)\<close>
  sets \<open>profile.<field>\<close> of the current user's document; the field and its value are one
  \<open>profile_update\<close>. \<open>safe_db_call\<close> (src/utils/helpers.py) is a parameter: it is handed the
  store operation and returns the store it leaves.
\<close>

record process_state =
  store :: auth_db
  artifact_cache :: cache_manager
  current_user_oid :: nat
  current_profile :: user_profile

datatype profile_update =
  Set_allergies "string list"
| Set_diet_types "string list"
| Set_cultural_restrictions "string list"
| Set_other string string

fun apply_profile_update :: "profile_update \<Rightarrow> user_profile \<Rightarrow> user_profile" where
  "apply_profile_update (Set_allergies xs) p = p\<lparr>allergies := Some xs\<rparr>"
| "apply_profile_update (Set_diet_types xs) p = p\<lparr>diet_types := Some xs\<rparr>"
| "apply_profile_update (Set_cultural_restrictions xs) p = p\<lparr>cultural_restrictions := Some xs\<rparr>"
| "apply_profile_update (Set_other field v) p = p\<lparr>other_fields := AList.update field v (other_fields p)\<rparr>"

definition update_profile_field ::
  "((auth_db \<Rightarrow> auth_db) \<Rightarrow> auth_db \<Rightarrow> auth_db) \<Rightarrow> process_state \<Rightarrow> profile_update \<Rightarrow> process_state" where
  "update_profile_field safe_db_call st upd =
     st\<lparr>store := safe_db_call
        (\<lambda>db. db\<lparr>users_v2 := update_first (\<lambda>u. user_oid u = current_user_oid st)
                 (\<lambda>u. u\<lparr>profile := apply_profile_update upd (profile u)\<rparr>) (users_v2 db)\<rparr>)
        (store st)\<rparr>"

text \<open>
  \<open>_edit_dietary_restrictions\<close>: the two answers of the user (\<open>None\<close>: left as it is) are
  written to the in-memory profile and to the store, diet types first.
\<close>

definition edit_dietary_restrictions ::
  "((auth_db \<Rightarrow> auth_db) \<Rightarrow> auth_db \<Rightarrow> auth_db) \<Rightarrow> process_state \<Rightarrow> string list option
     \<Rightarrow> string list option \<Rightarrow> process_state" where
  "edit_dietary_restrictions safe_db_call st new_diet_types new_allergies =
     (let st1 = (case new_diet_types of None \<Rightarrow> st
                 | Some dt \<Rightarrow> update_profile_field safe_db_call
                     (st\<lparr>current_profile := (current_profile st)\<lparr>diet_types := Some dt\<rparr>\<rparr>)
                     (Set_diet_types dt))
      in case new_allergies of None \<Rightarrow> st1
         | Some al \<Rightarrow> update_profile_field safe_db_call
             (st1\<lparr>current_profile := (current_profile st1)\<lparr>allergies := Some al\<rparr>\<rparr>)
             (Set_allergies al))"

text \<open>
  For the examples: a \<open>safe_db_call\<close> that runs the operation, and the process of the
  account \<open>bob\<close> with the cache that holds the artifacts of two lookups.
\<close>

definition run_db_call :: "(auth_db \<Rightarrow> auth_db) \<Rightarrow> auth_db \<Rightarrow> auth_db" where
  "run_db_call operation db = operation db"

definition bob_process :: process_state where
  "bob_process = \<lparr>store = db_bob, artifact_cache = other_users_cache, current_user_oid = 7,
     current_profile = profile_b\<rparr>"

section \<open>Tokens and session creation (auth/oauth.py)\<close>

text \<open>
  A signed token is its payload together with the key it was signed with: \<open>jwt.decode\<close>
  accepts it under that key only. A token is stamped with \<open>int(time.time())\<close>, the clock
  reading \<open>t\<close> (in microseconds since the epoch) cut to whole seconds, towards zero;
  \<open>token_hex\<close> is the random identifier drawn by \<open>secrets.token_hex(16)\<close>.
\<close>

definition int_seconds :: "time \<Rightarrow> int" where
  "int_seconds t = (if 0 \<le> t then t div 1000000 else - ((- t) div 1000000))"

datatype token_type = ACCESS | REFRESH | RESET

record token_claims =
  sub :: nat
  claims_email :: string
  iat :: int
  exp :: int
  jti :: string
  claims_type :: token_type

datatype token = Jwt string token_claims

record token_manager =
  secret_key :: string
  access_token_expiry :: int
  refresh_token_expiry :: int

definition generate_access_token :: "token_manager \<Rightarrow> time \<Rightarrow> string \<Rightarrow> nat \<Rightarrow> string \<Rightarrow> token" where
  "generate_access_token tm t token_hex uid email1 =
     (let now_timestamp = int_seconds t;
          expiry_timestamp = now_timestamp + access_token_expiry tm
      in Jwt (secret_key tm)
           \<lparr>sub = uid, claims_email = email1, iat = now_timestamp, exp = expiry_timestamp,
            jti = token_hex, claims_type = ACCESS\<rparr>)"

definition generate_refresh_token :: "token_manager \<Rightarrow> time \<Rightarrow> string \<Rightarrow> nat \<Rightarrow> string \<Rightarrow> token" where
  "generate_refresh_token tm t token_hex uid email1 =
     (let now_timestamp = int_seconds t;
          expiry_timestamp = now_timestamp + refresh_token_expiry tm
      in Jwt (secret_key tm)
           \<lparr>sub = uid, claims_email = email1, iat = now_timestamp, exp = expiry_timestamp,
            jti = token_hex, claims_type = REFRESH\<rparr>)"

text \<open>
  \<open>validate_token\<close> reads two clocks. \<open>jwt.decode\<close> compares with the time since the
  epoch, \<open>jwt_now\<close>, and rejects a wrong signature, an issue time in the future and an
  expiry that is not in the future. The function then checks the type and compares the
  expiry once more, with \<open>datetime.utcnow().timestamp()\<close>: the naive UTC time read as a
  local time, which is \<open>jwt_now\<close> only when the process runs in UTC and lies ahead of it by
  the offset west of UTC. Both readings are in microseconds.
\<close>

record validation_clock =
  jwt_now :: time
  utcnow_timestamp :: time

definition validate_token ::
  "token_manager \<Rightarrow> validation_clock \<Rightarrow> token \<Rightarrow> token_type \<Rightarrow> token_claims option" where
  "validate_token tm clock tok expected_type =
     (case tok of Jwt key claims \<Rightarrow>
        if key \<noteq> secret_key tm then None
        else if seconds (iat claims) > jwt_now clock then None
        else if seconds (exp claims) \<le> jwt_now clock then None
        else if claims_type claims \<noteq> expected_type then None
        else if utcnow_timestamp clock > seconds (exp claims) then None
        else Some claims)"

definition token_jti :: "token \<Rightarrow> string" where
  "token_jti tok = (case tok of Jwt key claims \<Rightarrow> jti claims)"

record token_pair =
  access_token :: token
  refresh_token :: token

text \<open>
  \<open>_create_session\<close> reads the clock for each stamp and for each validation, and raises
  \<open>ValueError\<close> (here \<open>TokenValidationError\<close>) when a new token does not validate. Its two
  writes go to the store one after the other, inside a \<open>DatabaseConnectionContext\<close>, whose
  exit does nothing. Either may raise; \<open>fails\<close> tells which do. \<open>now\<close> is the reading of
  \<open>datetime.utcnow()\<close> written into the documents.
\<close>

record session_clock =
  time_access :: time
  time_refresh :: time
  validate_access :: validation_clock
  validate_refresh :: validation_clock

datatype store_write = InsertSession | InsertTokensIssued

datatype session_exception = TokenValidationError | StoreFailure store_write

definition metadata_get :: "(string \<times> string) list \<Rightarrow> string \<Rightarrow> string \<Rightarrow> string" where
  "metadata_get data key dflt = (case map_of data key of None \<Rightarrow> dflt | Some v \<Rightarrow> v)"

definition create_session ::
  "token_manager \<Rightarrow> (store_write \<Rightarrow> bool) \<Rightarrow> session_clock \<Rightarrow> auth_db \<Rightarrow> time \<Rightarrow> string \<Rightarrow> string
     \<Rightarrow> nat \<Rightarrow> string \<Rightarrow> (string \<times> string) list \<Rightarrow> (session_exception + token_pair) \<times> auth_db" where
  "create_session tm fails clock db now hex_access hex_refresh uid email1 metadata =
     (let access = generate_access_token tm (time_access clock) hex_access uid email1;
          refresh = generate_refresh_token tm (time_refresh clock) hex_refresh uid email1
      in case validate_token tm (validate_access clock) access ACCESS of
           None \<Rightarrow> (Inl TokenValidationError, db)
         | Some access_claims \<Rightarrow>
             (case validate_token tm (validate_refresh clock) refresh REFRESH of
                None \<Rightarrow> (Inl TokenValidationError, db)
              | Some refresh_claims \<Rightarrow>
                  (let session_doc =
                         \<lparr>session_user_id = uid, access_token_jti = jti access_claims,
                          refresh_token_jti = jti refresh_claims,
                          session_device_info =
                            \<lparr>interface = metadata_get metadata ''interface'' ''cli'',
                             user_agent = metadata_get metadata ''user_agent'' ''unknown'',
                             device_ip_address = metadata_get metadata ''ip_address'' ''unknown''\<rparr>,
                          session_created_at = now, expires_at = exp refresh_claims,
                          last_activity = now, revoked = False\<rparr>;
                       tokens_issued =
                         \<lparr>event_type = ''tokens_issued'', audit_user_id = Some uid, audit_email = email1,
                          provider = None, ip_address = None, audit_success = True,
                          failure_reason = None, timestamp = now\<rparr>
                   in if fails InsertSession then (Inl (StoreFailure InsertSession), db)
                      else
                        (let db1 = db\<lparr>auth_sessions := auth_sessions db @ [session_doc]\<rparr>
                         in if fails InsertTokensIssued then (Inl (StoreFailure InsertTokensIssued), db1)
                            else (Inr \<lparr>access_token = access, refresh_token = refresh\<rparr>,
                                  db1\<lparr>auth_audit_log := auth_audit_log db1 @ [tokens_issued]\<rparr>)))))"

text \<open>
  \<open>AuthenticationService\<close> with the e-mail provider alone registered, under the name
  \<open>email\<close>; \<open>data\<close> is \<open>credentials.data\<close>. The module imports \<open>AuthResult\<close> under
  \<open>TYPE_CHECKING\<close> only, so each \<open>AuthResult(...)\<close> of the service raises \<open>NameError\<close>: the
  one for an unknown provider (raised in the \<open>try\<close>, caught, and raised again by the
  handler) and the one in the handler of any exception, such as those of
  \<open>_create_session\<close>; the handler logs the exception first. A result of the provider is
  handed on as it is.
\<close>

datatype service_exception = NameError string

definition authenticate_user ::
  "auth_config \<Rightarrow> (string \<Rightarrow> string \<Rightarrow> bool) \<Rightarrow> token_manager \<Rightarrow> (store_write \<Rightarrow> bool) \<Rightarrow> session_clock
     \<Rightarrow> auth_db \<Rightarrow> time \<Rightarrow> string \<Rightarrow> string \<Rightarrow> string \<Rightarrow> (string \<times> string) list
     \<Rightarrow> (service_exception + auth_result \<times> token_pair option) \<times> auth_db" where
  "authenticate_user cfg checkpw tm fails clock db now hex_access hex_refresh provider_name data =
     (if provider_name \<noteq> ''email'' then (Inl (NameError ''AuthResult''), db)
      else
        (let (result, db1) = authenticate cfg checkpw db now (metadata_get data ''email'' [])
               (metadata_get data ''password'' []) (metadata_get data ''ip_address'' ''unknown'')
         in if \<not> success result then (Inr (result, None), db1)
            else (case create_session tm fails clock db1 now hex_access hex_refresh
                         (the (user_id result)) (the (result_email result)) data of
                (Inr tokens, db2) \<Rightarrow> (Inr (result, Some tokens), db2)
              | (Inl e, db2) \<Rightarrow> (Inl (NameError ''AuthResult''), db2))))"

definition register_user ::
  "auth_config \<Rightarrow> (string \<Rightarrow> string) \<Rightarrow> token_manager \<Rightarrow> (store_write \<Rightarrow> bool) \<Rightarrow> session_clock
     \<Rightarrow> auth_db \<Rightarrow> nat \<Rightarrow> time \<Rightarrow> string \<Rightarrow> string \<Rightarrow> string \<Rightarrow> (string \<times> string) list \<Rightarrow> user_profile
     \<Rightarrow> (service_exception + auth_result \<times> token_pair option) \<times> auth_db" where
  "register_user cfg hashpw tm fails clock db new_oid now hex_access hex_refresh provider_name data prof =
     (if provider_name \<noteq> ''email'' then (Inl (NameError ''AuthResult''), db)
      else
        (let (result, db1) = register cfg hashpw db new_oid now (metadata_get data ''email'' [])
               (metadata_get data ''password'' []) prof
         in if \<not> success result then (Inr (result, None), db1)
            else if \<not> requires_verification result then
              (case create_session tm fails clock db1 now hex_access hex_refresh
                         (the (user_id result)) (the (result_email result)) data of
                (Inr tokens, db2) \<Rightarrow> (Inr (result, Some tokens), db2)
              | (Inl e, db2) \<Rightarrow> (Inl (NameError ''AuthResult''), db2))
            else (Inr (result, None), db1)))"

text \<open>
  Inputs for the examples: a token manager with the default lifetimes, two fault plans, and
  the clock readings of a login at second 100 in a process that runs in UTC and in one
  that runs five hours west of it.
\<close>

definition default_token_manager :: token_manager where
  "default_token_manager =
     \<lparr>secret_key = ''0123456789abcdef0123456789abcdef'', access_token_expiry = 900,
      refresh_token_expiry = 2592000\<rparr>"

definition no_faults :: "store_write \<Rightarrow> bool" where
  "no_faults w = False"

definition audit_write_lost :: "store_write \<Rightarrow> bool" where
  "audit_write_lost w = (w = InsertTokensIssued)"

definition bob_login :: "(string \<times> string) list" where
  "bob_login = [(''email'', ''bob@example.com''), (''password'', ''Tr0ub4dor&3''),
     (''ip_address'', ''10.0.0.1'')]"

definition utc_clock :: session_clock where
  "utc_clock =
     \<lparr>time_access = seconds 100 + 10, time_refresh = seconds 100 + 20,
      validate_access = \<lparr>jwt_now = seconds 100 + 30, utcnow_timestamp = seconds 100 + 40\<rparr>,
      validate_refresh = \<lparr>jwt_now = seconds 100 + 50, utcnow_timestamp = seconds 100 + 60\<rparr>\<rparr>"

definition west_clock :: session_clock where
  "west_clock =
     \<lparr>time_access = seconds 100 + 10, time_refresh = seconds 100 + 20,
      validate_access = \<lparr>jwt_now = seconds 100 + 30, utcnow_timestamp = seconds 18100 + 40\<rparr>,
      validate_refresh = \<lparr>jwt_now = seconds 100 + 50, utcnow_timestamp = seconds 18100 + 60\<rparr>\<rparr>"

section \<open>Properties of the per-user session paths\<close>

lemma path_str_snoc: "path_str (p @ [s]) = path_str p @ CHR ''/'' # s"
  by (simp add: path_str_def)

text \<open>
  The path handed to the automation library is determined by the sanitized user name and
  determines it: two user names get the same file exactly when they sanitize alike.
\<close>

lemma get_auth_state_path_eq_iff:
  "get_auth_state_path base u1 = get_auth_state_path base u2 \<longleftrightarrow> safe_username u1 = safe_username u2"
proof
  assume eq: "get_auth_state_path base u1 = get_auth_state_path base u2"
  let ?sd = "path_str (sessions_dir base)"
  have f: "\<And>u. get_auth_state_path base u =
      ?sd @ (if safe_username u = [] then [] else CHR ''/'' # safe_username u) @ ''/auth_state.json''"
    by (simp add: get_auth_state_path_def get_auth_state_path_p_def get_user_session_dir_def
        path_join_def path_str_snoc)
  let ?t = "\<lambda>u. (if safe_username u = [] then [] else CHR ''/'' # safe_username u)"
  from eq have "?t u1 @ ''/auth_state.json'' = ?t u2 @ ''/auth_state.json''"
    unfolding f by simp
  then have "?t u1 = ?t u2" by simp
  then show "safe_username u1 = safe_username u2"
    by (auto split: if_splits)
next
  assume "safe_username u1 = safe_username u2"
  then show "get_auth_state_path base u1 = get_auth_state_path base u2"
    by (simp add: get_auth_state_path_def get_auth_state_path_p_def get_user_session_dir_def)
qed

text \<open>
  C1. The claim: distinct application user names have distinct auth-state paths. The code
  maps the two distinct e-mail user names \<open>a.b@x.com\<close> and \<open>ab@x.com\<close> (the application's
  user name is the account's e-mail address) to the same sanitized segment \<open>abxcom\<close> and
  so to the same auth-state file.
\<close>

theorem get_auth_state_path_collision:
  "''a.b@x.com'' \<noteq> ''ab@x.com'' \<and>
   safe_username ''a.b@x.com'' = ''abxcom'' \<and> safe_username ''ab@x.com'' = ''abxcom'' \<and>
   get_auth_state_path [''srv'', ''cache''] ''a.b@x.com'' = ''/srv/cache/blinkit_sessions/abxcom/auth_state.json'' \<and>
   get_auth_state_path [''srv'', ''cache''] ''ab@x.com'' = ''/srv/cache/blinkit_sessions/abxcom/auth_state.json''"
  by code_simp

section \<open>Properties of the profile-aware cache\<close>

lemma sort_mset_cong: "mset xs = mset ys \<Longrightarrow> sort xs = sort (ys :: string list)"
  by (metis properties_for_sort sorted_sort mset_sort)

lemma cache_key_profile_a:
  "get_cache_key digest_stub ''ab'' ''recipes'' (Some profile_a) = ''ab_recipes_256c256c256c256c''"
  by code_simp

lemma hash_profile_a: "generate_profile_hash digest_stub profile_a = ''256c256c256c256c''"
  by code_simp

lemma truthy_profile_a: "profile_truthy (Some profile_a)"
  by (simp add: profile_truthy_def profile_a_def)

lemma cache_after_store_eq:
  "cache_after_store = \<lparr>cache_files = [(''ab_recipes_256c256c256c256c.json'',
        Json \<lparr>cached_at = Some 0, response = Some ''R1'', data_mode = ''recipes'', invalidated = False,
          profile_version = Some ''256c256c256c256c''\<rparr>)], ttl_hours = 12,
        memory_cache = [''ab_recipes_256c256c256c256c'' \<mapsto> ''R1'']\<rparr>"
  by (simp add: cache_after_store_def cache_response_def Let_def cache_key_profile_a hash_profile_a
      truthy_profile_a fresh_cache_def)

lemma other_users_cache_eq:
  "other_users_cache = \<lparr>cache_files = [(''notes.txt'', Unparsable),
        (''ab_recipes_256c256c256c256c.json'',
          Json \<lparr>cached_at = Some 0, response = Some ''R1'', data_mode = ''recipes'', invalidated = False,
            profile_version = Some ''256c256c256c256c''\<rparr>),
        (''cd_items.json'',
          Json \<lparr>cached_at = Some 5, response = Some ''I1'', data_mode = ''items'', invalidated = False,
            profile_version = None\<rparr>)], ttl_hours = 12,
        memory_cache = [''ab_recipes_256c256c256c256c'' \<mapsto> ''R1'', ''cd_items'' \<mapsto> ''I1'']\<rparr>"
  by (simp add: other_users_cache_def cache_response_def Let_def cache_after_store_eq
      get_cache_key_def profile_truthy_def)

text \<open>
  C10. The profile fingerprint is a function of the multisets of the values of the three
  fields \<open>allergies\<close>, \<open>diet_types\<close> and \<open>cultural_restrictions\<close> (an absent field counts
  as empty): reordering a list or changing any other field leaves it unchanged, and with it
  the cache key of every lookup that passes a non-empty profile.
\<close>

theorem generate_profile_hash_multiset:
  assumes "mset (get_list (allergies p)) = mset (get_list (allergies q))"
    and "mset (get_list (diet_types p)) = mset (get_list (diet_types q))"
    and "mset (get_list (cultural_restrictions p)) = mset (get_list (cultural_restrictions q))"
  shows "generate_profile_hash H p = generate_profile_hash H q \<and>
    (profile_truthy (Some p) \<and> profile_truthy (Some q) \<longrightarrow>
       get_cache_key H image_hash cmode (Some p) = get_cache_key H image_hash cmode (Some q))"
proof -
  have "generate_profile_hash H p = generate_profile_hash H q"
    using assms by (simp add: generate_profile_hash_def sort_mset_cong [OF assms(1)]
        sort_mset_cong [OF assms(2)] sort_mset_cong [OF assms(3)])
  then show ?thesis by (simp add: get_cache_key_def)
qed

theorem generate_profile_hash_multiset_witness:
  "mset (get_list (allergies profile_a)) = mset (get_list (allergies profile_b)) \<and>
   mset (get_list (diet_types profile_a)) = mset (get_list (diet_types profile_b)) \<and>
   mset (get_list (cultural_restrictions profile_a)) = mset (get_list (cultural_restrictions profile_b)) \<and>
   profile_truthy (Some profile_a) \<and> profile_truthy (Some profile_b) \<and>
   profile_a \<noteq> profile_b \<and>
   generate_profile_hash digest_stub profile_a = generate_profile_hash digest_stub profile_b \<and>
   get_cache_key digest_stub ''ab'' ''recipes'' (Some profile_a) =
     get_cache_key digest_stub ''ab'' ''recipes'' (Some profile_b)"
proof -
  have h1: "mset (get_list (allergies profile_a)) = mset (get_list (allergies profile_b))"
    by (simp add: profile_a_def profile_b_def get_list_def)
  have h2: "mset (get_list (diet_types profile_a)) = mset (get_list (diet_types profile_b))"
    by (simp add: profile_a_def profile_b_def get_list_def)
  have h3: "mset (get_list (cultural_restrictions profile_a)) = mset (get_list (cultural_restrictions profile_b))"
    by (simp add: profile_a_def profile_b_def get_list_def)
  have t: "profile_truthy (Some profile_a) \<and> profile_truthy (Some profile_b)"
    by (simp add: profile_a_def profile_b_def profile_truthy_def)
  have ne: "profile_a \<noteq> profile_b"
    by (simp add: profile_a_def profile_b_def)
  from generate_profile_hash_multiset [OF h1 h2 h3, of digest_stub "''ab''" "''recipes''"] t h1 h2 h3 ne
  show ?thesis by blast
qed

lemma invalidate_loop_closed:
  "invalidate_loop fs c = (map mark_invalidated fs, c + int (length (filter is_rewritten fs)))"
  by (induction fs arbitrary: c)
     (auto simp: mark_invalidated_def is_rewritten_def split: cache_file.splits prod.splits)

lemma map_of_mark_invalidated:
  "map_of (map mark_invalidated fs) k =
     map_option (\<lambda>f. snd (mark_invalidated (k, f))) (map_of fs k)"
  by (induction fs) (auto simp: mark_invalidated_def split: cache_file.splits)

text \<open>
  C9, as the code has it. \<open>invalidate_cache_for_user\<close> does not look at its user name: it
  marks every parsable \<open>.json\<close> file of the cache directory invalidated, whoever produced
  it and whether or not it depends on a profile, empties the in-memory dictionary and
  returns the number of files it rewrote. After it, every lookup, for any image, mode and
  profile, misses. A profile edit does not call it: \<open>_update_profile_field\<close> and the
  dietary edit built on it write to the store and leave the cache as it was.
\<close>

theorem invalidate_cache_for_user_all:
  "invalidate_cache_for_user cm username =
     (int (length (filter is_rewritten (cache_files cm))),
      cm\<lparr>cache_files := map mark_invalidated (cache_files cm), memory_cache := Map.empty\<rparr>) \<and>
   invalidate_cache_for_user cm username = invalidate_cache_for_user cm username' \<and>
   fst (get_cached_response H (snd (invalidate_cache_for_user cm username)) now image_hash cmode up) = None \<and>
   artifact_cache (update_profile_field safe_db_call st upd) = artifact_cache st \<and>
   artifact_cache (edit_dietary_restrictions safe_db_call st new_diet_types new_allergies) = artifact_cache st"
proof -
  have a: "invalidate_cache_for_user cm u =
     (int (length (filter is_rewritten (cache_files cm))),
      cm\<lparr>cache_files := map mark_invalidated (cache_files cm), memory_cache := Map.empty\<rparr>)" for u
    by (simp add: invalidate_cache_for_user_def invalidate_loop_closed)
  have e: "endswith_json (k @ ''.json'')" for k
    by (simp add: endswith_json_def)
  have g: "fst (get_cached_response H
      (cm\<lparr>cache_files := map mark_invalidated (cache_files cm), memory_cache := Map.empty\<rparr>)
      now image_hash cmode up) = None"
    by (auto simp: get_cached_response_def Let_def map_of_mark_invalidated mark_invalidated_def e
        split: option.splits cache_file.splits)
  have u: "artifact_cache (update_profile_field safe_db_call s0 upd0) = artifact_cache s0" for s0 upd0
    by (simp add: update_profile_field_def)
  have d: "artifact_cache (edit_dietary_restrictions safe_db_call st new_diet_types new_allergies) = artifact_cache st"
    by (simp add: edit_dietary_restrictions_def Let_def u split: option.splits)
  from g u d show ?thesis by (simp add: a)
qed

text \<open>
  A direct call on the cache of two lookups: both files are rewritten and a lookup that hit
  before misses after; the dietary edit of \<open>bob\<close> leaves that cache as it was.
\<close>

theorem invalidate_cache_for_user_all_witness:
  "fst (invalidate_cache_for_user other_users_cache ''alice@example.com'') = 2 \<and>
   fst (get_cached_response digest_stub other_users_cache 10 ''cd'' ''items'' None) = Some ''I1'' \<and>
   fst (get_cached_response digest_stub
      (snd (invalidate_cache_for_user other_users_cache ''alice@example.com'')) 10 ''cd'' ''items'' None) = None \<and>
   artifact_cache (edit_dietary_restrictions run_db_call bob_process None (Some [''dairy'', ''nuts'', ''gluten''])) =
     other_users_cache"
proof -
  have f1: "fst (invalidate_cache_for_user other_users_cache ''alice@example.com'') = 2"
    by (simp add: invalidate_cache_for_user_def other_users_cache_eq endswith_json_def)
  have f2: "fst (get_cached_response digest_stub other_users_cache 10 ''cd'' ''items'' None) = Some ''I1''"
    by (simp add: get_cached_response_def get_cache_key_def profile_truthy_def other_users_cache_eq)
  have b: "artifact_cache bob_process = other_users_cache"
    by (simp add: bob_process_def)
  note t = invalidate_cache_for_user_all [of other_users_cache "''alice@example.com''" "''bob''" digest_stub 10
        "''cd''" "''items''" None run_db_call bob_process "Set_allergies []" None
        "Some [''dairy'', ''nuts'', ''gluten'']"]
  from t have c3: "fst (get_cached_response digest_stub
      (snd (invalidate_cache_for_user other_users_cache ''alice@example.com'')) 10 ''cd'' ''items'' None) = None"
    by blast
  from t have "artifact_cache (edit_dietary_restrictions run_db_call bob_process None
      (Some [''dairy'', ''nuts'', ''gluten''])) = artifact_cache bob_process"
    by blast
  then have c5: "artifact_cache (edit_dietary_restrictions run_db_call bob_process None
      (Some [''dairy'', ''nuts'', ''gluten''])) = other_users_cache"
    using b by simp
  from f1 f2 c3 c5 show ?thesis by blast
qed

text \<open>
  C9, the claim as stated: after any single user's profile edit every cached artifact of
  every user is invalidated. \<open>bob\<close> adds an allergy through the dietary edit: the store
  has the new list, the cache is what it was, and the lookups of both artifacts still hit.
\<close>

theorem profile_edit_keeps_cache:
  "allergies (profile (hd (users_v2 (store bob_process)))) = Some [''dairy'', ''nuts''] \<and>
   allergies (profile (hd (users_v2 (store
     (edit_dietary_restrictions run_db_call bob_process None (Some [''dairy'', ''nuts'', ''gluten'']))))))
     = Some [''dairy'', ''nuts'', ''gluten''] \<and>
   cache_files (artifact_cache
     (edit_dietary_restrictions run_db_call bob_process None (Some [''dairy'', ''nuts'', ''gluten''])))
     = [(''notes.txt'', Unparsable),
        (''ab_recipes_256c256c256c256c.json'',
          Json \<lparr>cached_at = Some 0, response = Some ''R1'', data_mode = ''recipes'', invalidated = False,
            profile_version = Some ''256c256c256c256c''\<rparr>),
        (''cd_items.json'',
          Json \<lparr>cached_at = Some 5, response = Some ''I1'', data_mode = ''items'', invalidated = False,
            profile_version = None\<rparr>)] \<and>
   fst (get_cached_response digest_stub (artifact_cache
     (edit_dietary_restrictions run_db_call bob_process None (Some [''dairy'', ''nuts'', ''gluten''])))
     10 ''cd'' ''items'' None) = Some ''I1'' \<and>
   fst (get_cached_response digest_stub (artifact_cache
     (edit_dietary_restrictions run_db_call bob_process None (Some [''dairy'', ''nuts'', ''gluten''])))
     10 ''ab'' ''recipes'' (Some profile_a)) = Some ''R1''"
proof -
  have c: "artifact_cache
     (edit_dietary_restrictions run_db_call bob_process None (Some [''dairy'', ''nuts'', ''gluten''])) =
     other_users_cache"
    by (simp add: edit_dietary_restrictions_def update_profile_field_def bob_process_def)
  have s: "allergies (profile (hd (users_v2 (store
     (edit_dietary_restrictions run_db_call bob_process None (Some [''dairy'', ''nuts'', ''gluten'']))))))
     = Some [''dairy'', ''nuts'', ''gluten'']"
    by (simp add: edit_dietary_restrictions_def update_profile_field_def bob_process_def run_db_call_def
        db_bob_def bob_def)
  have s0: "allergies (profile (hd (users_v2 (store bob_process)))) = Some [''dairy'', ''nuts'']"
    by (simp add: bob_process_def db_bob_def bob_def profile_b_def)
  have h1: "fst (get_cached_response digest_stub other_users_cache 10 ''cd'' ''items'' None) = Some ''I1''"
    by (simp add: get_cached_response_def get_cache_key_def profile_truthy_def other_users_cache_eq)
  have h2: "fst (get_cached_response digest_stub other_users_cache 10 ''ab'' ''recipes'' (Some profile_a)) = Some ''R1''"
    by (simp add: get_cached_response_def cache_key_profile_a other_users_cache_eq)
  show ?thesis
    unfolding c using s [unfolded c] s0 h1 h2 by (simp add: other_users_cache_eq)
qed

lemma get_cached_response_memory_hit:
  "memory_cache cm (get_cache_key H image_hash cmode up) = Some r \<Longrightarrow>
     get_cached_response H cm now image_hash cmode up = (Some r, cm)"
  by (simp add: get_cached_response_def)

text \<open>
  C3, as the code has it. A key present in the in-memory dictionary is a hit, whatever the
  age of the entry. A lookup with a (non-empty) profile returns a hit either from the
  in-memory dictionary or from the file of that key, and then only if the file's profile
  fingerprint is the profile's, its age is at most the time to live and it is not marked
  invalidated.
\<close>

theorem get_cached_response_hit:
  "(memory_cache cm (get_cache_key H image_hash cmode up) = Some r0 \<longrightarrow>
      get_cached_response H cm now image_hash cmode up = (Some r0, cm)) \<and>
   (get_cached_response H cm now image_hash cmode up = (Some r, cm') \<and> profile_truthy up \<longrightarrow>
      memory_cache cm (get_cache_key H image_hash cmode up) = Some r \<or>
      (memory_cache cm (get_cache_key H image_hash cmode up) = None \<and>
       (\<exists>d t. map_of (cache_files cm) (get_cache_key H image_hash cmode up @ ''.json'') = Some (Json d) \<and>
          (case profile_version d of None \<Rightarrow> [] | Some v \<Rightarrow> v) = generate_profile_hash H (the up) \<and>
          cached_at d = Some t \<and> now - t \<le> hours (ttl_hours cm) \<and>
          \<not> invalidated d \<and> response d = Some r)))"
proof -
  have "get_cached_response H cm now image_hash cmode up = (Some r, cm') \<Longrightarrow> profile_truthy up \<Longrightarrow>
      memory_cache cm (get_cache_key H image_hash cmode up) = Some r \<or>
      (memory_cache cm (get_cache_key H image_hash cmode up) = None \<and>
       (\<exists>d t. map_of (cache_files cm) (get_cache_key H image_hash cmode up @ ''.json'') = Some (Json d) \<and>
          (case profile_version d of None \<Rightarrow> [] | Some v \<Rightarrow> v) = generate_profile_hash H (the up) \<and>
          cached_at d = Some t \<and> now - t \<le> hours (ttl_hours cm) \<and>
          \<not> invalidated d \<and> response d = Some r))"
    by (auto simp: get_cached_response_def Let_def remove_file_def
        split: option.splits cache_file.splits if_splits)
  then show ?thesis
    using get_cached_response_memory_hit [of cm H image_hash cmode up r0 now] by blast
qed

text \<open>
  An instance of the theorem: the fresh manager stores a response at time 0 and is asked
  again one hour later, after the in-memory dictionary was lost (a new process): the hit
  comes from the file.
\<close>

theorem get_cached_response_hit_witness:
  "get_cached_response digest_stub (cache_after_store\<lparr>memory_cache := Map.empty\<rparr>) (hours 1) ''ab'' ''recipes''
       (Some profile_a) =
     (Some ''R1'', cache_after_store) \<and>
   profile_truthy (Some profile_a) \<and>
   memory_cache (cache_after_store\<lparr>memory_cache := Map.empty\<rparr>)
     (get_cache_key digest_stub ''ab'' ''recipes'' (Some profile_a)) = None \<and>
   (\<exists>d t. map_of (cache_files cache_after_store)
        (get_cache_key digest_stub ''ab'' ''recipes'' (Some profile_a) @ ''.json'') = Some (Json d) \<and>
      (case profile_version d of None \<Rightarrow> [] | Some v \<Rightarrow> v) = generate_profile_hash digest_stub profile_a \<and>
      cached_at d = Some t \<and> hours 1 - t \<le> hours 12 \<and> \<not> invalidated d \<and> response d = Some ''R1'')"
proof -
  note t = truthy_profile_a
  have g: "get_cached_response digest_stub (cache_after_store\<lparr>memory_cache := Map.empty\<rparr>) (hours 1) ''ab''
      ''recipes'' (Some profile_a) = (Some ''R1'', cache_after_store)"
    by (simp add: get_cached_response_def Let_def cache_key_profile_a hash_profile_a t
        cache_after_store_eq hours_def)
  have m: "memory_cache (cache_after_store\<lparr>memory_cache := Map.empty\<rparr>)
     (get_cache_key digest_stub ''ab'' ''recipes'' (Some profile_a)) = None"
    by simp
  from get_cached_response_hit [of "cache_after_store\<lparr>memory_cache := Map.empty\<rparr>" digest_stub
      "''ab''" "''recipes''" "Some profile_a" "''R1''" "hours 1" "''R1''" cache_after_store] m t g
  show ?thesis
    by (simp add: cache_after_store_eq)
qed

text \<open>
  C3, the claim as stated: a hit is returned only if the entry's age is at most the time to
  live, also from the in-memory tier. The manager that stored a response at time 0 with a
  time to live of 12 hours returns it 13 hours later.
\<close>

theorem memory_hit_after_ttl:
  "fst (get_cached_response digest_stub cache_after_store (hours 13) ''ab'' ''recipes'' (Some profile_a)) = Some ''R1'' \<and>
   map_of (cache_files cache_after_store) (get_cache_key digest_stub ''ab'' ''recipes'' (Some profile_a) @ ''.json'')
     = Some (Json \<lparr>cached_at = Some 0, response = Some ''R1'', data_mode = ''recipes'', invalidated = False,
          profile_version = Some (generate_profile_hash digest_stub profile_a)\<rparr>) \<and>
   hours 13 - 0 > hours (ttl_hours cache_after_store)"
  by (simp add: get_cached_response_def Let_def cache_key_profile_a hash_profile_a
      cache_after_store_eq hours_def)

section \<open>Properties of the circuit breaker\<close>

text \<open>
  Within a day of the last failure the breaker behaves as a breaker with cooldown
  \<open>timeout\<close>: an open breaker rejects a call made before the cooldown has elapsed without
  running the wrapped function; a failure that brings the count to the threshold opens it;
  a success closes it and resets the count; a failed probe opens it again.
\<close>

lemma timedelta_seconds_le: "0 \<le> d \<Longrightarrow> timedelta_seconds d \<le> d div 1000000"
  unfolding timedelta_seconds_def
  by (smt (verit, best) div_int_pos_iff zmod_le_nonneg_dividend)

lemma call_open_before_timeout:
  assumes "state cb = OPEN" and "last_failure_time cb = Some t"
    and "0 \<le> clock w - t" and "clock w - t < seconds (timeout cb)"
  shows "call clock cb func w = (Inl circuit_open_message, cb, w)"
proof -
  have "(clock w - t) div 1000000 < timeout cb"
    using assms(4) by (simp add: seconds_def)
  with timedelta_seconds_le [OF assms(3)] have "timedelta_seconds (clock w - t) < timeout cb"
    by linarith
  then show ?thesis
    using assms(1,2) by (simp add: call_def)
qed

lemma call_failure_opens:
  assumes "state cb \<noteq> OPEN" and "func w = (Inl e, w')"
    and "failure_threshold cb \<le> failure_count cb + 1"
  shows "call clock cb func w =
     (Inl e, cb\<lparr>failure_count := failure_count cb + 1, last_failure_time := Some (clock w'),
              state := OPEN\<rparr>, w')"
  using assms by (simp add: call_def)

lemma call_failure_below_threshold:
  assumes "state cb \<noteq> OPEN" and "func w = (Inl e, w')"
    and "failure_count cb + 1 < failure_threshold cb"
  shows "call clock cb func w =
     (Inl e, cb\<lparr>failure_count := failure_count cb + 1, last_failure_time := Some (clock w')\<rparr>, w')"
  using assms by (simp add: call_def)

lemma call_success_closes:
  assumes "state cb \<noteq> OPEN \<or>
     (last_failure_time cb = Some t \<and> timeout cb \<le> timedelta_seconds (clock w - t))"
    and "func w = (Inr r, w')"
  shows "call clock cb func w = (Inr r, cb\<lparr>state := CLOSED, failure_count := 0\<rparr>, w')"
  using assms by (auto simp: call_def)

lemma call_probe_failure_reopens:
  assumes "state cb = OPEN" and "last_failure_time cb = Some t"
    and "timeout cb \<le> timedelta_seconds (clock w - t)"
    and "failure_threshold cb \<le> failure_count cb" and "func w = (Inl e, w')"
  shows "call clock cb func w =
     (Inl e, cb\<lparr>failure_count := failure_count cb + 1, last_failure_time := Some (clock w'),
              state := OPEN\<rparr>, w')"
  using assms by (simp add: call_def)

text \<open>
  C6. The claim: once the cooldown has elapsed since the last failure, one probe call is
  permitted. The breaker with threshold 3 and a cooldown of 2 seconds, opened by three
  failures at time 0, is called again one day and one second later. The call is rejected
  and the dependency is not contacted: the code compares the cooldown with the seconds
  field of the elapsed time, which is 1, not with the elapsed time.
\<close>

theorem call_open_after_a_day:
  "breaker_after_three_failures =
     \<lparr>failure_threshold = 3, timeout = 2, failure_count = 3, last_failure_time = Some 0, state = OPEN\<rparr> \<and>
   seconds (timeout breaker_after_three_failures) \<le> seconds 86401 - 0 \<and>
   call wall_clock breaker_after_three_failures camera_up \<lparr>wall_clock = seconds 86401, contacts = 3\<rparr> =
     (Inl circuit_open_message, breaker_after_three_failures, \<lparr>wall_clock = seconds 86401, contacts = 3\<rparr>)"
  by code_simp

section \<open>Properties of the connection state machine\<close>

text \<open>
  When every attempt fails, \<open>ensure_connected\<close> ends in \<open>ERROR\<close>, raises the connection
  error with the last underlying error, and has slept \<open>attempt + 1\<close> seconds after each
  attempt but the last.
\<close>

lemma connect_loop_fail_step:
  assumes "connect attempt = Inl e" and "attempt < max_retries - 1"
  shows "connect_loop connect max_retries attempt s =
     connect_loop connect max_retries (attempt + 1)
       (s\<lparr>metrics := (metrics s)\<lparr>connection_attempts := connection_attempts (metrics s) + 1,
            connection_failures := connection_failures (metrics s) + 1, last_error := Some e\<rparr>,
          db_state := ERROR, db_client := None, connection_error := Some e,
          slept := slept s @ [1 * (attempt + 1)]\<rparr>)"
  by (subst connect_loop.simps) (use assms in \<open>simp add: Let_def\<close>)

lemma connect_loop_fail_last:
  assumes "connect attempt = Inl e" and "attempt = max_retries - 1"
  shows "connect_loop connect max_retries attempt s =
     (Inl (DatabaseConnectionError max_retries e),
       s\<lparr>metrics := (metrics s)\<lparr>connection_attempts := connection_attempts (metrics s) + 1,
            connection_failures := connection_failures (metrics s) + 1, last_error := Some e\<rparr>,
          db_state := ERROR, db_client := None, connection_error := Some e\<rparr>)"
  by (subst connect_loop.simps) (use assms in \<open>simp add: Let_def\<close>)

lemma connect_loop_all_fail:
  assumes "\<And>k. attempt \<le> k \<Longrightarrow> k < max_retries \<Longrightarrow> connect k = Inl (err k)"
    and "attempt < max_retries"
  shows "fst (connect_loop connect max_retries attempt s) =
       Inl (DatabaseConnectionError max_retries (err (max_retries - 1))) \<and>
     db_state (snd (connect_loop connect max_retries attempt s)) = ERROR \<and>
     slept (snd (connect_loop connect max_retries attempt s)) =
       slept s @ map (\<lambda>k. 1 * (k + 1)) [attempt..max_retries - 2]"
  using assms
proof (induction "nat (max_retries - 1 - attempt)" arbitrary: attempt s)
  case 0
  then have e: "attempt = max_retries - 1" by simp
  have c: "connect attempt = Inl (err attempt)" using 0 by simp
  show ?case
    unfolding connect_loop_fail_last [where connect = connect and attempt = attempt, OF c e] using e by simp
next
  case (Suc n)
  then have lt: "attempt < max_retries - 1" by simp
  have c: "connect attempt = Inl (err attempt)" using Suc by simp
  have n: "n = nat (max_retries - 1 - (attempt + 1))" using Suc(2) by simp
  have u: "[attempt..max_retries - 2] = attempt # [attempt + 1..max_retries - 2]"
    using lt by (simp add: upto_rec1)
  have k: "\<And>k. attempt + 1 \<le> k \<Longrightarrow> k < max_retries \<Longrightarrow> connect k = Inl (err k)"
    using Suc(3) by simp
  have m: "attempt + 1 < max_retries" using lt by simp
  show ?case
    unfolding connect_loop_fail_step [where connect = connect and attempt = attempt, OF c lt] using Suc(1) [OF n k m] u by simp
qed

lemma ensure_connected_idempotent:
  "db_state s = CONNECTED \<Longrightarrow> ensure_connected connect max_retries s = (Inr (), s)"
  by (simp add: ensure_connected_def)

lemma ensure_connected_all_fail:
  assumes "db_state s \<noteq> CONNECTED" and "0 < max_retries"
    and "\<And>k. 0 \<le> k \<Longrightarrow> k < max_retries \<Longrightarrow> connect k = Inl (err k)"
  shows "fst (ensure_connected connect max_retries s) =
       Inl (DatabaseConnectionError max_retries (err (max_retries - 1))) \<and>
     db_state (snd (ensure_connected connect max_retries s)) = ERROR \<and>
     slept (snd (ensure_connected connect max_retries s)) =
       slept s @ map (\<lambda>k. 1 * (k + 1)) [0..max_retries - 2]"
  using assms(1) connect_loop_all_fail [of 0 max_retries connect err s, OF assms(3) assms(2)]
  by (simp add: ensure_connected_def)

lemma connect_loop_first_success:
  assumes "connect attempt = Inr c" and "attempt < max_retries"
  shows "connect_loop connect max_retries attempt s =
     (Inr (), s\<lparr>metrics := (metrics s)\<lparr>connection_attempts := connection_attempts (metrics s) + 1\<rparr>,
               db_client := Some c, db_state := CONNECTED, connection_error := None,
               health_check_started := True\<rparr>)"
  by (subst connect_loop.simps) (use assms in \<open>simp add: Let_def\<close>)

lemma ensure_connected_no_attempts:
  "db_state s \<noteq> CONNECTED \<Longrightarrow> max_retries \<le> 0 \<Longrightarrow> ensure_connected connect max_retries s = (Inr (), s)"
  by (simp add: ensure_connected_def connect_loop.simps [of connect max_retries 0 s])

text \<open>
  C5. The claim: before every retry the manager waits 1 second times 2 to the power of the
  attempt index. With \<open>max_retries = 4\<close> and a store that refuses every attempt the waits
  are 1, 2 and 3 seconds, not 1, 2 and 4: the delay is \<open>1 * (attempt + 1)\<close>.
\<close>

theorem ensure_connected_linear_backoff:
  "fst (ensure_connected store_down 4 new_database_state_machine) =
     Inl (DatabaseConnectionError 4 ''connection refused'') \<and>
   db_state (snd (ensure_connected store_down 4 new_database_state_machine)) = ERROR \<and>
   slept (snd (ensure_connected store_down 4 new_database_state_machine)) = [1, 2, 3] \<and>
   slept (snd (ensure_connected store_down 4 new_database_state_machine)) \<noteq> [1 * 2 ^ 0, 1 * 2 ^ 1, 1 * 2 ^ 2]"
  by code_simp

section \<open>Properties of document collections\<close>



lemma find_Some_D: "find P xs = Some d \<Longrightarrow> d \<in> set xs \<and> P d"
  by (induction xs) (auto split: if_splits)

lemma filter_le_one_unique:
  "length (filter P xs) \<le> 1 \<Longrightarrow> x \<in> set xs \<Longrightarrow> P x \<Longrightarrow> y \<in> set xs \<Longrightarrow> P y \<Longrightarrow> x = y"
proof (induction xs)
  case Nil
  then show ?case by simp
next
  case (Cons a xs)
  show ?case
  proof (cases "P a")
    case True
    with Cons.prems(1) have "filter P xs = []" by simp
    then have "\<forall>z \<in> set xs. \<not> P z" by (simp add: filter_empty_conv)
    with Cons.prems True show ?thesis by auto
  next
    case False
    with Cons show ?thesis by auto
  qed
qed

section \<open>Properties of the grocery-list update\<close>




section \<open>Properties of the password policy\<close>

lemma is_valid_validate:
  "is_valid (validate password username) \<longleftrightarrow>
     MIN_LENGTH \<le> length password \<and> list_ex is_upper_az password \<and> list_ex is_lower_az password \<and>
     list_ex is_digit password \<and> list_ex is_special password \<and>
     lower password \<notin> set COMMON_PASSWORDS \<and>
     (\<forall>u. username = Some u \<and> u \<noteq> [] \<longrightarrow> \<not> substring_in (lower u) (lower password))"
  by (cases username) (auto simp: validate_def Let_def)

lemma dropWhile_all: "(\<forall>x \<in> set (dropWhile P xs). P x) \<longleftrightarrow> (\<forall>x \<in> set xs. P x)"
proof
  assume a: "\<forall>x \<in> set (dropWhile P xs). P x"
  have "dropWhile P xs = []"
  proof (rule ccontr)
    assume n: "dropWhile P xs \<noteq> []"
    then have "\<not> P (hd (dropWhile P xs))" by (rule hd_dropWhile)
    moreover have "hd (dropWhile P xs) \<in> set (dropWhile P xs)" using n by simp
    ultimately show False using a by blast
  qed
  then show "\<forall>x \<in> set xs. P x" by (simp add: dropWhile_eq_Nil_conv)
next
  assume "\<forall>x \<in> set xs. P x"
  then show "\<forall>x \<in> set (dropWhile P xs). P x" by (meson set_dropWhileD)
qed

lemma strip_empty: "strip s = [] \<longleftrightarrow> (\<forall>c \<in> set s. is_space c)"
  by (simp add: strip_def dropWhile_eq_Nil_conv dropWhile_all)

lemma space_not_local: "is_space c \<Longrightarrow> \<not> is_local_char c"
proof -
  assume "is_space c"
  then have "of_char c \<in> set [9, 10, 11, 12, 13, 28, 29, 30, 31, 32, 133, 160 :: nat]"
    by (simp add: is_space_def cp_def)
  then have "char_of (of_char c :: nat) \<in> char_of ` set [9, 10, 11, 12, 13, 28, 29, 30, 31, 32, 133, 160 :: nat]"
    by (rule imageI)
  then have "c \<in> set (map char_of [9, 10, 11, 12, 13, 28, 29, 30, 31, 32, 133, 160 :: nat])"
    by simp
  moreover have "list_all (\<lambda>c. \<not> is_local_char c) (map char_of [9, 10, 11, 12, 13, 28, 29, 30, 31, 32, 133, 160 :: nat])"
    by code_simp
  ultimately show ?thesis unfolding list_all_iff by blast
qed

lemma valid_email_not_blank:
  assumes "validate_email e = Inr ()"
  shows "normalize_email e \<noteq> []"
proof -
  from assms have m: "EMAIL_REGEX_match e"
    by (auto simp: validate_email_def split: if_splits)
  let ?l = "takeWhile (\<lambda>c. c \<noteq> CHR ''@'') e"
  have "takeWhile (\<lambda>c. c \<noteq> CHR ''@'') (butlast e) \<noteq> [] \<Longrightarrow> ?l \<noteq> []"
    by (cases e) (auto split: if_splits)
  moreover have "list_all is_local_char (takeWhile (\<lambda>c. c \<noteq> CHR ''@'') (butlast e)) \<Longrightarrow>
      takeWhile (\<lambda>c. c \<noteq> CHR ''@'') (butlast e) \<noteq> [] \<Longrightarrow> is_local_char (hd ?l)"
    by (cases e) (auto split: if_splits)
  ultimately have "?l \<noteq> [] \<and> is_local_char (hd ?l)"
    using m by (cases ?l) (auto simp: EMAIL_REGEX_match_def email_regex_core_def Let_def)
  then have "hd ?l \<in> set e \<and> \<not> is_space (hd ?l)"
    using space_not_local by (metis hd_in_set set_takeWhileD)
  then have "strip e \<noteq> []"
    using strip_empty by blast
  then show ?thesis by (simp add: normalize_email_def lower_def)
qed

text \<open>
  C4, as the code has it. A registration succeeds only with a password of at least 8
  characters with an upper-case letter, a lower-case letter, a digit and a special
  character, whose lower-case form is not a common password and does not contain the whole
  normalized e-mail address: \<open>register\<close> passes the address, not its local part, as the
  user name of the similarity check.
\<close>

theorem register_password_policy:
  assumes "success (fst (register cfg hashpw db new_oid now credentials_email password prof))"
  shows "8 \<le> length password \<and> list_ex is_upper_az password \<and> list_ex is_lower_az password \<and>
     list_ex is_digit password \<and> list_ex is_special password \<and>
     lower password \<notin> set COMMON_PASSWORDS \<and>
     \<not> substring_in (lower (normalize_email (strip credentials_email))) (lower password)"
proof -
  let ?e0 = "strip credentials_email"
  let ?e1 = "normalize_email ?e0"
  from assms have v: "validate_email ?e0 = Inr ()"
    by (cases "validate_email ?e0") (auto simp: register_def Let_def failure_def)
  with assms have "is_valid (validate password (Some ?e1))"
    by (auto simp: register_def Let_def failure_def validate_password_with_feedback_def
        split: if_splits)
  moreover have "?e1 \<noteq> []"
    using valid_email_not_blank [OF v] .
  ultimately show ?thesis
    by (simp add: is_valid_validate MIN_LENGTH_def)
qed

text \<open>Scenario 1: the registration of \<open>alice@example.com\<close> with \<open>Correct-Horse-9!\<close>.\<close>

theorem register_password_policy_witness:
  "success (fst (register default_config hash_stub empty_db 1 0 ''Alice@Example.com'' ''Correct-Horse-9!'' profile_a)) \<and>
   normalize_email (strip ''Alice@Example.com'') = ''alice@example.com'' \<and>
   8 \<le> length ''Correct-Horse-9!'' \<and> list_ex is_upper_az ''Correct-Horse-9!'' \<and>
   list_ex is_lower_az ''Correct-Horse-9!'' \<and> list_ex is_digit ''Correct-Horse-9!'' \<and>
   list_ex is_special ''Correct-Horse-9!'' \<and> lower ''Correct-Horse-9!'' \<notin> set COMMON_PASSWORDS \<and>
   \<not> substring_in (lower (normalize_email (strip ''Alice@Example.com''))) (lower ''Correct-Horse-9!'')"
proof -
  have s: "success (fst (register default_config hash_stub empty_db 1 0 ''Alice@Example.com'' ''Correct-Horse-9!'' profile_a))"
    by code_simp
  have n: "normalize_email (strip ''Alice@Example.com'') = ''alice@example.com''"
    by code_simp
  from register_password_policy [OF s] s n show ?thesis by blast
qed

text \<open>
  C4, the claim as stated: a password that contains the local part of the e-mail address is
  rejected. \<open>alice@example.com\<close> registers with the password \<open>alice-Pass9!\<close>.
\<close>

theorem register_accepts_local_part:
  "rsplit_at (normalize_email ''alice@example.com'') = Some (''alice'', ''example.com'') \<and>
   substring_in ''alice'' ''alice-Pass9!'' \<and>
   is_valid (validate ''alice-Pass9!'' (Some ''alice@example.com'')) \<and>
   success (fst (register default_config hash_stub empty_db 1 0 ''alice@example.com'' ''alice-Pass9!'' profile_a))"
  by code_simp

section \<open>Properties of password authentication\<close>

lemma find_update_first:
  "find P xs = Some d \<Longrightarrow> P (f d) \<Longrightarrow> find P (update_first P f xs) = Some (f d)"
  by (induction xs) (auto split: if_splits)

lemma find_by_key:
  "d \<in> set xs \<Longrightarrow> distinct (map k xs) \<Longrightarrow> find (\<lambda>x. k x = k d) xs = Some d"
  by (induction xs) (auto simp: image_iff)

text \<open>
  C8, as the code has it. For an account found by its e-mail address (object ids being
  unique): while it is locked the attempt fails as locked whatever the password, and
  nothing is written; otherwise a wrong password increments \<open>failed_login_attempts\<close> and,
  once the count reaches the threshold, sets \<open>locked_until\<close> to now plus the lockout
  duration; otherwise, provided the e-mail address is verified when verification is
  required, the attempt succeeds, the count is reset to 0, \<open>locked_until\<close> is cleared and
  \<open>last_login\<close> is set to now.
\<close>

theorem authenticate_lockout:
  assumes found: "find (\<lambda>u. email u = normalize_email credentials_email \<and> auth_provider u = ''email'')
        (users_v2 db) = Some usr"
    and ids: "distinct (map user_oid (users_v2 db))"
  shows "((\<exists>lu. locked_until usr = Some lu \<and> now < lu) \<longrightarrow>
            \<not> success (fst (authenticate cfg checkpw db now credentials_email password ip)) \<and>
            (\<exists>m. error_message (fst (authenticate cfg checkpw db now credentials_email password ip)) =
                   Some (AccountLocked m)) \<and>
            snd (authenticate cfg checkpw db now credentials_email password ip) = db) \<and>
         (\<not> (\<exists>lu. locked_until usr = Some lu \<and> now < lu) \<and> \<not> checkpw password (password_hash usr) \<longrightarrow>
            \<not> success (fst (authenticate cfg checkpw db now credentials_email password ip)) \<and>
            find (\<lambda>u. user_oid u = user_oid usr)
                (users_v2 (snd (authenticate cfg checkpw db now credentials_email password ip))) =
              Some (usr\<lparr>failed_login_attempts := failed_login_attempts usr + 1,
                        locked_until :=
                          (if failed_login_attempts usr + 1 \<ge> MAX_LOGIN_ATTEMPTS cfg
                           then Some (now + seconds (LOCKOUT_DURATION cfg)) else locked_until usr)\<rparr>)) \<and>
         (\<not> (\<exists>lu. locked_until usr = Some lu \<and> now < lu) \<and> checkpw password (password_hash usr) \<and>
          (REQUIRE_EMAIL_VERIFICATION cfg \<longrightarrow> email_verified usr) \<longrightarrow>
            success (fst (authenticate cfg checkpw db now credentials_email password ip)) \<and>
            find (\<lambda>u. user_oid u = user_oid usr)
                (users_v2 (snd (authenticate cfg checkpw db now credentials_email password ip))) =
              Some (usr\<lparr>failed_login_attempts := 0, locked_until := None, last_login := Some now\<rparr>))"
proof -
  let ?r = "authenticate cfg checkpw db now credentials_email password ip"
  let ?locked = "case locked_until usr of None \<Rightarrow> False | Some lu \<Rightarrow> now < lu"
  have l: "?locked \<longleftrightarrow> (\<exists>lu. locked_until usr = Some lu \<and> now < lu)"
    by (cases "locked_until usr") auto
  have "usr \<in> set (users_v2 db)"
    using found by (auto simp: find_Some_iff)
  from find_by_key [OF this ids] have byid: "find (\<lambda>u. user_oid u = user_oid usr) (users_v2 db) = Some usr" .
  have a: "?locked \<Longrightarrow> \<not> success (fst ?r) \<and> (\<exists>m. error_message (fst ?r) = Some (AccountLocked m)) \<and> snd ?r = db"
    using found by (simp add: authenticate_def Let_def failure_def)
  have b: "\<not> ?locked \<Longrightarrow> \<not> checkpw password (password_hash usr) \<Longrightarrow>
      \<not> success (fst ?r) \<and>
      find (\<lambda>u. user_oid u = user_oid usr) (users_v2 (snd ?r)) =
        Some (usr\<lparr>failed_login_attempts := failed_login_attempts usr + 1,
                  locked_until :=
                    (if failed_login_attempts usr + 1 \<ge> MAX_LOGIN_ATTEMPTS cfg
                     then Some (now + seconds (LOCKOUT_DURATION cfg)) else locked_until usr)\<rparr>)"
    using found by (simp add: authenticate_def Let_def failure_def find_update_first [OF byid])
  have c: "\<not> ?locked \<Longrightarrow> checkpw password (password_hash usr) \<Longrightarrow>
      (REQUIRE_EMAIL_VERIFICATION cfg \<longrightarrow> email_verified usr) \<Longrightarrow>
      success (fst ?r) \<and>
      find (\<lambda>u. user_oid u = user_oid usr) (users_v2 (snd ?r)) =
        Some (usr\<lparr>failed_login_attempts := 0, locked_until := None, last_login := Some now\<rparr>)"
    using found by (auto simp: authenticate_def Let_def find_update_first [OF byid])
  from a b c show ?thesis unfolding l by blast
qed

text \<open>
  Scenario 2 with the default configuration: the fifth wrong password at second 100 locks
  the account until second 1900; the right password at second 200 is refused as locked;
  at second 1900 it is accepted and the counters are reset.
\<close>

theorem authenticate_lockout_witness:
  "find (\<lambda>u. email u = normalize_email ''Bob@Example.com '' \<and> auth_provider u = ''email'') [bob] = Some bob \<and>
   distinct (map user_oid [bob]) \<and>
   \<not> checkpw_stub ''wrong'' (password_hash bob) \<and>
   find (\<lambda>u. user_oid u = user_oid bob)
     (users_v2 (snd (authenticate default_config checkpw_stub db_bob (seconds 100) ''Bob@Example.com '' ''wrong'' ''10.0.0.1'')))
     = Some bob_locked \<and>
   checkpw_stub ''Tr0ub4dor&3'' (password_hash bob_locked) \<and>
   error_message (fst (authenticate default_config checkpw_stub (db_bob\<lparr>users_v2 := [bob_locked]\<rparr>) (seconds 200)
       ''bob@example.com'' ''Tr0ub4dor&3'' ''10.0.0.1'')) = Some (AccountLocked 28) \<and>
   success (fst (authenticate default_config checkpw_stub (db_bob\<lparr>users_v2 := [bob_locked]\<rparr>) (seconds 1900)
       ''bob@example.com'' ''Tr0ub4dor&3'' ''10.0.0.1'')) \<and>
   find (\<lambda>u. user_oid u = user_oid bob_locked)
     (users_v2 (snd (authenticate default_config checkpw_stub (db_bob\<lparr>users_v2 := [bob_locked]\<rparr>) (seconds 1900)
       ''bob@example.com'' ''Tr0ub4dor&3'' ''10.0.0.1'')))
     = Some (bob_locked\<lparr>failed_login_attempts := 0, locked_until := None, last_login := Some (seconds 1900)\<rparr>)"
proof -
  have n1: "normalize_email ''Bob@Example.com '' = ''bob@example.com''" by code_simp
  have n2: "normalize_email ''bob@example.com'' = ''bob@example.com''" by code_simp
  have f1: "find (\<lambda>u. email u = normalize_email ''Bob@Example.com '' \<and> auth_provider u = ''email'')
      (users_v2 db_bob) = Some bob"
    by (simp add: n1 db_bob_def bob_def)
  have f2: "find (\<lambda>u. email u = normalize_email ''bob@example.com'' \<and> auth_provider u = ''email'')
      (users_v2 (db_bob\<lparr>users_v2 := [bob_locked]\<rparr>)) = Some bob_locked"
    by (simp add: n2 bob_locked_def bob_def)
  have d1: "distinct (map user_oid (users_v2 db_bob))" by (simp add: db_bob_def)
  have d2: "distinct (map user_oid (users_v2 (db_bob\<lparr>users_v2 := [bob_locked]\<rparr>)))" by simp
  have w: "\<not> checkpw_stub ''wrong'' (password_hash bob)"
    by (simp add: checkpw_stub_def hash_stub_def bob_def)
  have c: "checkpw_stub ''Tr0ub4dor&3'' (password_hash bob_locked)"
    by (simp add: checkpw_stub_def hash_stub_def bob_def bob_locked_def)
  have u: "locked_until bob = None" by (simp add: bob_def)
  have k: "locked_until bob_locked = Some (seconds 1900)" by (simp add: bob_locked_def)
  have v: "\<not> REQUIRE_EMAIL_VERIFICATION default_config" by (simp add: default_config_def)
  have e1: "bob\<lparr>failed_login_attempts := failed_login_attempts bob + 1,
              locked_until := (if failed_login_attempts bob + 1 \<ge> MAX_LOGIN_ATTEMPTS default_config
                 then Some (seconds 100 + seconds (LOCKOUT_DURATION default_config)) else locked_until bob)\<rparr>
            = bob_locked"
    by (simp add: bob_locked_def bob_def default_config_def seconds_def)
  note t1 = authenticate_lockout [OF f1 d1, where now = "seconds 100" and cfg = default_config
      and checkpw = checkpw_stub and password = "''wrong''" and ip = "''10.0.0.1''"]
  note t2 = authenticate_lockout [OF f2 d2, where now = "seconds 200" and cfg = default_config
      and checkpw = checkpw_stub and password = "''Tr0ub4dor&3''" and ip = "''10.0.0.1''"]
  note t3 = authenticate_lockout [OF f2 d2, where now = "seconds 1900" and cfg = default_config
      and checkpw = checkpw_stub and password = "''Tr0ub4dor&3''" and ip = "''10.0.0.1''"]
  have r1: "find (\<lambda>u. user_oid u = user_oid bob)
     (users_v2 (snd (authenticate default_config checkpw_stub db_bob (seconds 100) ''Bob@Example.com '' ''wrong'' ''10.0.0.1'')))
     = Some bob_locked"
    using t1 w u e1 by simp
  have "seconds 200 < seconds 1900" by (simp add: seconds_def)
  with t2 k obtain m where m: "error_message (fst (authenticate default_config checkpw_stub (db_bob\<lparr>users_v2 := [bob_locked]\<rparr>) (seconds 200)
       ''bob@example.com'' ''Tr0ub4dor&3'' ''10.0.0.1'')) = Some (AccountLocked m)"
    by auto
  have "error_message (fst (authenticate default_config checkpw_stub (db_bob\<lparr>users_v2 := [bob_locked]\<rparr>) (seconds 200)
       ''bob@example.com'' ''Tr0ub4dor&3'' ''10.0.0.1'')) = Some (AccountLocked 28)"
    by code_simp
  moreover have "\<not> (\<exists>lu. locked_until bob_locked = Some lu \<and> seconds 1900 < lu)"
    by (simp add: k)
  ultimately show ?thesis
    using t3 c v r1 f1 d1 w by (simp add: db_bob_def)
qed

text \<open>
  C8, the claim as stated: every attempt with the right password and no active lock resets
  the counters. With \<open>REQUIRE_EMAIL_VERIFICATION\<close> set, the unverified account is turned
  away after the password check and nothing is written: the count stays at 4.
\<close>

theorem authenticate_unverified_no_reset:
  "checkpw_stub ''Tr0ub4dor&3'' (password_hash bob_unverified) \<and>
   locked_until bob_unverified = None \<and>
   failed_login_attempts bob_unverified = 4 \<and>
   authenticate strict_config checkpw_stub (db_bob\<lparr>users_v2 := [bob_unverified]\<rparr>) (seconds 100)
       ''bob@example.com'' ''Tr0ub4dor&3'' ''10.0.0.1'' =
     ((failure EmailNotVerified)\<lparr>requires_verification := True\<rparr>, db_bob\<lparr>users_v2 := [bob_unverified]\<rparr>)"
  by code_simp

section \<open>Properties of session creation\<close>

text \<open>
  What \<open>_create_session\<close> leaves in the store: with a token pair, one new session row that
  carries the two token identifiers and one new audit record; when a new token does not
  validate or the session write fails, nothing; when the audit write alone fails, the
  session row alone.
\<close>

lemma create_session_Inr:
  assumes "create_session tm fails clock db now hex_access hex_refresh uid email1 metadata = (Inr pair, db')"
  shows "\<not> fails InsertSession \<and> \<not> fails InsertTokensIssued \<and>
     (\<exists>row. auth_sessions db' = auth_sessions db @ [row] \<and>
        access_token_jti row = token_jti (access_token pair) \<and>
        refresh_token_jti row = token_jti (refresh_token pair) \<and> \<not> revoked row) \<and>
     (\<exists>a. auth_audit_log db' = auth_audit_log db @ [a] \<and> event_type a = ''tokens_issued'') \<and>
     users_v2 db' = users_v2 db"
  using assms
  by (auto simp: create_session_def Let_def validate_token_def generate_access_token_def
      generate_refresh_token_def token_jti_def split: option.splits if_splits)

lemma create_session_session_write_fails:
  assumes "fails InsertSession"
  shows "\<exists>e. create_session tm fails clock db now hex_access hex_refresh uid email1 metadata = (Inl e, db)"
  using assms by (simp add: create_session_def Let_def split: option.splits)

lemma create_session_validation_fails:
  assumes "validate_token tm (validate_access clock)
        (generate_access_token tm (time_access clock) hex_access uid email1) ACCESS = None \<or>
      validate_token tm (validate_refresh clock)
        (generate_refresh_token tm (time_refresh clock) hex_refresh uid email1) REFRESH = None"
  shows "create_session tm fails clock db now hex_access hex_refresh uid email1 metadata =
      (Inl TokenValidationError, db)"
  using assms by (auto simp: create_session_def Let_def split: option.splits)

lemma validate_token_jti:
  assumes "validate_token tm vc (Jwt key claims) ty = Some c"
  shows "c = claims"
  using assms by (simp add: validate_token_def split: if_splits)

lemma create_session_audit_write_fails:
  assumes "\<not> fails InsertSession" and "fails InsertTokensIssued"
    and "validate_token tm (validate_access clock)
        (generate_access_token tm (time_access clock) hex_access uid email1) ACCESS \<noteq> None"
    and "validate_token tm (validate_refresh clock)
        (generate_refresh_token tm (time_refresh clock) hex_refresh uid email1) REFRESH \<noteq> None"
  shows "\<exists>row. create_session tm fails clock db now hex_access hex_refresh uid email1 metadata =
       (Inl (StoreFailure InsertTokensIssued), db\<lparr>auth_sessions := auth_sessions db @ [row]\<rparr>) \<and>
     access_token_jti row = hex_access \<and> \<not> revoked row"
proof -
  from assms(3) obtain ac where ac: "validate_token tm (validate_access clock)
        (generate_access_token tm (time_access clock) hex_access uid email1) ACCESS = Some ac"
    by blast
  from assms(4) obtain rc where rc: "validate_token tm (validate_refresh clock)
        (generate_refresh_token tm (time_refresh clock) hex_refresh uid email1) REFRESH = Some rc"
    by blast
  from ac have j: "jti ac = hex_access"
    by (auto simp: generate_access_token_def Let_def dest: validate_token_jti)
  show ?thesis
    using assms(1,2) j by (simp add: create_session_def Let_def ac rc) force
qed

text \<open>
  When a new token validates: it was stamped no later than the clock of \<open>jwt.decode\<close>
  reads, that clock has not reached the expiry, and the local reading of the UTC time has
  not passed it.
\<close>

lemma validate_new_access_token:
  "validate_token tm vc (generate_access_token tm t hex_access uid email1) ACCESS \<noteq> None \<longleftrightarrow>
     seconds (int_seconds t) \<le> jwt_now vc \<and>
     jwt_now vc < seconds (int_seconds t + access_token_expiry tm) \<and>
     utcnow_timestamp vc \<le> seconds (int_seconds t + access_token_expiry tm)"
  by (auto simp: validate_token_def generate_access_token_def Let_def)

lemma validate_new_refresh_token:
  "validate_token tm vc (generate_refresh_token tm t hex_refresh uid email1) REFRESH \<noteq> None \<longleftrightarrow>
     seconds (int_seconds t) \<le> jwt_now vc \<and>
     jwt_now vc < seconds (int_seconds t + refresh_token_expiry tm) \<and>
     utcnow_timestamp vc \<le> seconds (int_seconds t + refresh_token_expiry tm)"
  by (auto simp: validate_token_def generate_refresh_token_def Let_def)

text \<open>
  Five hours west of UTC the local reading of the UTC time is past the expiry of a new
  access token of 900 seconds: \<open>_create_session\<close> raises before it writes, and the login,
  which has passed the password check, ends in the \<open>NameError\<close> of the handler.
\<close>

lemma create_session_west_of_utc:
  "create_session default_token_manager no_faults west_clock db_bob (seconds 100) ''aa11'' ''bb22'' 7
       ''bob@example.com'' bob_login = (Inl TokenValidationError, db_bob)"
  by code_simp

lemma authenticate_user_west_of_utc:
  "fst (authenticate_user default_config checkpw_stub default_token_manager no_faults west_clock db_bob
        (seconds 100) ''aa11'' ''bb22'' ''email'' bob_login) = Inl (NameError ''AuthResult'') \<and>
   auth_sessions (snd (authenticate_user default_config checkpw_stub default_token_manager no_faults
        west_clock db_bob (seconds 100) ''aa11'' ''bb22'' ''email'' bob_login)) = []"
  by code_simp

text \<open>An unknown provider: the service raises, and the store is as it was.\<close>

lemma authenticate_user_unknown_provider:
  assumes "provider_name \<noteq> ''email''"
  shows "authenticate_user cfg checkpw tm fails clock db now hex_access hex_refresh provider_name data =
     (Inl (NameError ''AuthResult''), db)"
  using assms by (simp add: authenticate_user_def)

lemma register_user_unknown_provider:
  assumes "provider_name \<noteq> ''email''"
  shows "register_user cfg hashpw tm fails clock db new_oid now hex_access hex_refresh provider_name data prof =
     (Inl (NameError ''AuthResult''), db)"
  using assms by (simp add: register_user_def)

text \<open>
  C2, as the code has it. The session row and the \<open>tokens_issued\<close> record are two
  separate writes, in this order, with no transaction around them. When a new token does
  not validate, or when the session write fails, \<open>_create_session\<close> raises and the store
  is unchanged; when the tokens validate and only the audit write fails, it raises and the
  session row stays. Whenever \<open>_create_session\<close>, an authentication or a registration
  returns a token pair, the session write did not fail, the store holds a session row with
  \<open>access_token_jti\<close> equal to the identifier of the returned access token and
  \<open>revoked = False\<close>, and it holds the \<open>tokens_issued\<close> record.
\<close>

theorem session_row_before_token_pair:
  "(validate_token tm (validate_access clock)
        (generate_access_token tm (time_access clock) hex_access uid email1) ACCESS = None \<or>
    validate_token tm (validate_refresh clock)
        (generate_refresh_token tm (time_refresh clock) hex_refresh uid email1) REFRESH = None \<longrightarrow>
      create_session tm fails clock db now hex_access hex_refresh uid email1 metadata =
        (Inl TokenValidationError, db)) \<and>
   (fails InsertSession \<longrightarrow>
      (\<exists>e. create_session tm fails clock db now hex_access hex_refresh uid email1 metadata = (Inl e, db))) \<and>
   (validate_token tm (validate_access clock)
        (generate_access_token tm (time_access clock) hex_access uid email1) ACCESS \<noteq> None \<and>
    validate_token tm (validate_refresh clock)
        (generate_refresh_token tm (time_refresh clock) hex_refresh uid email1) REFRESH \<noteq> None \<and>
    \<not> fails InsertSession \<and> fails InsertTokensIssued \<longrightarrow>
      (\<exists>row. create_session tm fails clock db now hex_access hex_refresh uid email1 metadata =
           (Inl (StoreFailure InsertTokensIssued), db\<lparr>auth_sessions := auth_sessions db @ [row]\<rparr>) \<and>
         access_token_jti row = hex_access \<and> \<not> revoked row)) \<and>
   (create_session tm fails clock db now hex_access hex_refresh uid email1 metadata = (Inr pair0, db0) \<longrightarrow>
      \<not> fails InsertSession \<and>
      (\<exists>row \<in> set (auth_sessions db0). access_token_jti row = token_jti (access_token pair0) \<and> \<not> revoked row) \<and>
      (\<exists>a \<in> set (auth_audit_log db0). event_type a = ''tokens_issued'')) \<and>
   (fst (authenticate_user cfg checkpw tm fails clock db now hex_access hex_refresh provider_name data)
        = Inr (result1, Some pair1) \<longrightarrow>
      \<not> fails InsertSession \<and>
      (\<exists>row \<in> set (auth_sessions (snd (authenticate_user cfg checkpw tm fails clock db now
            hex_access hex_refresh provider_name data))).
         access_token_jti row = token_jti (access_token pair1) \<and> \<not> revoked row) \<and>
      (\<exists>a \<in> set (auth_audit_log (snd (authenticate_user cfg checkpw tm fails clock db now
            hex_access hex_refresh provider_name data))). event_type a = ''tokens_issued'')) \<and>
   (fst (register_user cfg hashpw tm fails clock db new_oid now hex_access hex_refresh provider_name
        data prof) = Inr (result2, Some pair2) \<longrightarrow>
      \<not> fails InsertSession \<and>
      (\<exists>row \<in> set (auth_sessions (snd (register_user cfg hashpw tm fails clock db new_oid now
            hex_access hex_refresh provider_name data prof))).
         access_token_jti row = token_jti (access_token pair2) \<and> \<not> revoked row) \<and>
      (\<exists>a \<in> set (auth_audit_log (snd (register_user cfg hashpw tm fails clock db new_oid now
            hex_access hex_refresh provider_name data prof))). event_type a = ''tokens_issued''))"
proof -
  have cs: "\<not> fails InsertSession \<and>
      (\<exists>row \<in> set (auth_sessions d'). access_token_jti row = token_jti (access_token p) \<and> \<not> revoked row) \<and>
      (\<exists>a \<in> set (auth_audit_log d'). event_type a = ''tokens_issued'')"
    if "create_session tm fails clock d now hex_access hex_refresh u e metadata' = (Inr p, d')"
    for d d' p u e metadata'
  proof -
    from create_session_Inr [OF that] obtain row a where
      "\<not> fails InsertSession" "auth_sessions d' = auth_sessions d @ [row]"
      "access_token_jti row = token_jti (access_token p)" "\<not> revoked row"
      "auth_audit_log d' = auth_audit_log d @ [a]" "event_type a = ''tokens_issued''"
      by blast
    then show ?thesis by auto
  qed
  have a: "create_session tm fails clock db now hex_access hex_refresh uid email1 metadata = (Inr pair0, db0) \<longrightarrow>
      \<not> fails InsertSession \<and>
      (\<exists>row \<in> set (auth_sessions db0). access_token_jti row = token_jti (access_token pair0) \<and> \<not> revoked row) \<and>
      (\<exists>a \<in> set (auth_audit_log db0). event_type a = ''tokens_issued'')"
    using cs by blast
  let ?au = "authenticate_user cfg checkpw tm fails clock db now hex_access hex_refresh provider_name data"
  have b: "fst ?au = Inr (result1, Some pair1) \<longrightarrow>
      \<not> fails InsertSession \<and>
      (\<exists>row \<in> set (auth_sessions (snd ?au)). access_token_jti row = token_jti (access_token pair1) \<and> \<not> revoked row) \<and>
      (\<exists>a \<in> set (auth_audit_log (snd ?au)). event_type a = ''tokens_issued'')"
  proof
    assume h: "fst ?au = Inr (result1, Some pair1)"
    obtain result db1 where r: "authenticate cfg checkpw db now (metadata_get data ''email'' [])
        (metadata_get data ''password'' []) (metadata_get data ''ip_address'' ''unknown'') = (result, db1)"
      by (cases "authenticate cfg checkpw db now (metadata_get data ''email'' [])
        (metadata_get data ''password'' []) (metadata_get data ''ip_address'' ''unknown'')")
    obtain x db2 where c: "create_session tm fails clock db1 now hex_access hex_refresh
        (the (user_id result)) (the (result_email result)) data = (x, db2)"
      by (cases "create_session tm fails clock db1 now hex_access hex_refresh
        (the (user_id result)) (the (result_email result)) data")
    from h r c have "x = Inr pair1 \<and> snd ?au = db2"
      by (cases x) (auto simp: authenticate_user_def split: if_splits)
    with c cs show "\<not> fails InsertSession \<and>
      (\<exists>row \<in> set (auth_sessions (snd ?au)). access_token_jti row = token_jti (access_token pair1) \<and> \<not> revoked row) \<and>
      (\<exists>a \<in> set (auth_audit_log (snd ?au)). event_type a = ''tokens_issued'')"
      by simp
  qed
  let ?ru = "register_user cfg hashpw tm fails clock db new_oid now hex_access hex_refresh provider_name
        data prof"
  have c: "fst ?ru = Inr (result2, Some pair2) \<longrightarrow>
      \<not> fails InsertSession \<and>
      (\<exists>row \<in> set (auth_sessions (snd ?ru)). access_token_jti row = token_jti (access_token pair2) \<and> \<not> revoked row) \<and>
      (\<exists>a \<in> set (auth_audit_log (snd ?ru)). event_type a = ''tokens_issued'')"
  proof
    assume h: "fst ?ru = Inr (result2, Some pair2)"
    obtain result db1 where r: "register cfg hashpw db new_oid now (metadata_get data ''email'' [])
        (metadata_get data ''password'' []) prof = (result, db1)"
      by (cases "register cfg hashpw db new_oid now (metadata_get data ''email'' [])
        (metadata_get data ''password'' []) prof")
    obtain x db2 where c: "create_session tm fails clock db1 now hex_access hex_refresh
        (the (user_id result)) (the (result_email result)) data = (x, db2)"
      by (cases "create_session tm fails clock db1 now hex_access hex_refresh
        (the (user_id result)) (the (result_email result)) data")
    from h r c have "x = Inr pair2 \<and> snd ?ru = db2"
      by (cases x) (auto simp: register_user_def split: if_splits)
    with c cs show "\<not> fails InsertSession \<and>
      (\<exists>row \<in> set (auth_sessions (snd ?ru)). access_token_jti row = token_jti (access_token pair2) \<and> \<not> revoked row) \<and>
      (\<exists>a \<in> set (auth_audit_log (snd ?ru)). event_type a = ''tokens_issued'')"
      by simp
  qed
  have f0: "validate_token tm (validate_access clock)
        (generate_access_token tm (time_access clock) hex_access uid email1) ACCESS = None \<or>
    validate_token tm (validate_refresh clock)
        (generate_refresh_token tm (time_refresh clock) hex_refresh uid email1) REFRESH = None \<longrightarrow>
      create_session tm fails clock db now hex_access hex_refresh uid email1 metadata =
        (Inl TokenValidationError, db)"
    using create_session_validation_fails [of tm clock hex_access uid email1 hex_refresh fails db now metadata]
    by blast
  have f1: "fails InsertSession \<longrightarrow>
      (\<exists>e. create_session tm fails clock db now hex_access hex_refresh uid email1 metadata = (Inl e, db))"
    using create_session_session_write_fails [of fails tm clock db now hex_access hex_refresh uid email1 metadata]
    by blast
  have f2: "validate_token tm (validate_access clock)
        (generate_access_token tm (time_access clock) hex_access uid email1) ACCESS \<noteq> None \<and>
    validate_token tm (validate_refresh clock)
        (generate_refresh_token tm (time_refresh clock) hex_refresh uid email1) REFRESH \<noteq> None \<and>
    \<not> fails InsertSession \<and> fails InsertTokensIssued \<longrightarrow>
      (\<exists>row. create_session tm fails clock db now hex_access hex_refresh uid email1 metadata =
           (Inl (StoreFailure InsertTokensIssued), db\<lparr>auth_sessions := auth_sessions db @ [row]\<rparr>) \<and>
         access_token_jti row = hex_access \<and> \<not> revoked row)"
    using create_session_audit_write_fails [of fails tm clock hex_access uid email1 hex_refresh db now metadata]
    by blast
  from f0 f1 f2 a b c show ?thesis by blast
qed

text \<open>
  A login of the account of scenario 2 with the right password in a process that runs in
  UTC, once with a healthy store and once, for \<open>_create_session\<close>, with a store that loses
  the audit write.
\<close>

theorem session_row_before_token_pair_witness:
  "fst (authenticate_user default_config checkpw_stub default_token_manager no_faults utc_clock db_bob
        (seconds 100) ''aa11'' ''bb22'' ''email'' bob_login) =
     Inr (\<lparr>success = True, user_id = Some 7, result_email = Some ''bob@example.com'',
            error_message = None, requires_verification = False\<rparr>,
          Some \<lparr>access_token = Jwt ''0123456789abcdef0123456789abcdef''
             \<lparr>sub = 7, claims_email = ''bob@example.com'', iat = 100, exp = 1000, jti = ''aa11'',
              claims_type = ACCESS\<rparr>,
           refresh_token = Jwt ''0123456789abcdef0123456789abcdef''
             \<lparr>sub = 7, claims_email = ''bob@example.com'', iat = 100, exp = 2592100, jti = ''bb22'',
              claims_type = REFRESH\<rparr>\<rparr>) \<and>
   \<not> no_faults InsertSession \<and>
   (\<exists>row \<in> set (auth_sessions (snd (authenticate_user default_config checkpw_stub default_token_manager
        no_faults utc_clock db_bob (seconds 100) ''aa11'' ''bb22'' ''email'' bob_login))).
      access_token_jti row = ''aa11'' \<and> \<not> revoked row) \<and>
   (\<exists>a \<in> set (auth_audit_log (snd (authenticate_user default_config checkpw_stub default_token_manager
        no_faults utc_clock db_bob (seconds 100) ''aa11'' ''bb22'' ''email'' bob_login))).
      event_type a = ''tokens_issued'') \<and>
   (\<exists>row. create_session default_token_manager audit_write_lost utc_clock db_bob (seconds 100) ''aa11''
        ''bb22'' 7 ''bob@example.com'' bob_login =
      (Inl (StoreFailure InsertTokensIssued), db_bob\<lparr>auth_sessions := auth_sessions db_bob @ [row]\<rparr>) \<and>
      access_token_jti row = ''aa11'' \<and> \<not> revoked row)"
proof -
  let ?r = "\<lparr>success = True, user_id = Some 7, result_email = Some ''bob@example.com'',
            error_message = None, requires_verification = False\<rparr>"
  let ?p = "\<lparr>access_token = Jwt ''0123456789abcdef0123456789abcdef''
             \<lparr>sub = 7, claims_email = ''bob@example.com'', iat = 100, exp = 1000, jti = ''aa11'',
              claims_type = ACCESS\<rparr>,
           refresh_token = Jwt ''0123456789abcdef0123456789abcdef''
             \<lparr>sub = 7, claims_email = ''bob@example.com'', iat = 100, exp = 2592100, jti = ''bb22'',
              claims_type = REFRESH\<rparr>\<rparr>"
  have h: "fst (authenticate_user default_config checkpw_stub default_token_manager no_faults utc_clock db_bob
        (seconds 100) ''aa11'' ''bb22'' ''email'' bob_login) = Inr (?r, Some ?p)"
    by code_simp
  have j: "token_jti (access_token ?p) = ''aa11''"
    by (simp add: token_jti_def)
  from session_row_before_token_pair [where cfg = default_config and checkpw = checkpw_stub
      and tm = default_token_manager and fails = no_faults and clock = utc_clock and db = db_bob
      and now = "seconds 100" and hex_access = "''aa11''" and hex_refresh = "''bb22''"
      and provider_name = "''email''" and data = bob_login and ?pair1.0 = ?p and ?result1.0 = ?r] h
  have login: "\<not> no_faults InsertSession \<and>
   (\<exists>row \<in> set (auth_sessions (snd (authenticate_user default_config checkpw_stub default_token_manager
        no_faults utc_clock db_bob (seconds 100) ''aa11'' ''bb22'' ''email'' bob_login))).
      access_token_jti row = ''aa11'' \<and> \<not> revoked row) \<and>
   (\<exists>a \<in> set (auth_audit_log (snd (authenticate_user default_config checkpw_stub default_token_manager
        no_faults utc_clock db_bob (seconds 100) ''aa11'' ''bb22'' ''email'' bob_login))).
      event_type a = ''tokens_issued'')"
    unfolding j by blast
  have v: "validate_token default_token_manager (validate_access utc_clock)
        (generate_access_token default_token_manager (time_access utc_clock) ''aa11'' 7 ''bob@example.com'')
        ACCESS \<noteq> None \<and>
      validate_token default_token_manager (validate_refresh utc_clock)
        (generate_refresh_token default_token_manager (time_refresh utc_clock) ''bb22'' 7 ''bob@example.com'')
        REFRESH \<noteq> None \<and>
      \<not> audit_write_lost InsertSession \<and> audit_write_lost InsertTokensIssued"
    by code_simp
  from session_row_before_token_pair [where tm = default_token_manager and fails = audit_write_lost
      and clock = utc_clock and db = db_bob and now = "seconds 100" and hex_access = "''aa11''"
      and hex_refresh = "''bb22''" and uid = 7 and ?email1.0 = "''bob@example.com''"
      and metadata = bob_login] v
  have lost: "\<exists>row. create_session default_token_manager audit_write_lost utc_clock db_bob (seconds 100)
        ''aa11'' ''bb22'' 7 ''bob@example.com'' bob_login =
      (Inl (StoreFailure InsertTokensIssued), db_bob\<lparr>auth_sessions := auth_sessions db_bob @ [row]\<rparr>) \<and>
      access_token_jti row = ''aa11'' \<and> \<not> revoked row"
    by blast
  from h login lost show ?thesis
    by blast
qed

text \<open>
  C2, the claim as stated: the session row and the \<open>tokens_issued\<close> record are written
  together in one transaction. When the second write fails, the login raises and returns
  no tokens, the session row (not revoked) stays in the store and the audit log has no
  \<open>tokens_issued\<close> record.
\<close>

theorem session_row_without_audit_record:
  "fst (authenticate_user default_config checkpw_stub default_token_manager audit_write_lost utc_clock db_bob
        (seconds 100) ''aa11'' ''bb22'' ''email'' bob_login) = Inl (NameError ''AuthResult'') \<and>
   map access_token_jti (auth_sessions (snd (authenticate_user default_config checkpw_stub
        default_token_manager audit_write_lost utc_clock db_bob (seconds 100) ''aa11'' ''bb22'' ''email''
        bob_login))) = [''aa11''] \<and>
   map revoked (auth_sessions (snd (authenticate_user default_config checkpw_stub
        default_token_manager audit_write_lost utc_clock db_bob (seconds 100) ''aa11'' ''bb22'' ''email''
        bob_login))) = [False] \<and>
   map event_type (auth_audit_log (snd (authenticate_user default_config checkpw_stub
        default_token_manager audit_write_lost utc_clock db_bob (seconds 100) ''aa11'' ''bb22'' ''email''
        bob_login))) = [''login_success'']"
  by code_simp

end
